theory Spec2Isabelle
  imports Complex_Main "HOL-Library.Word"
begin

section \<open>Shader program manager (src/SFML/Graphics/Shader.cpp)\<close>

text \<open>
  The graphics API is an external collaborator. Every entry point the code calls is recorded,
  in call order, in a trace; every answer the API gives is read from a \<open>gl_backend\<close> value.
  Lines written to \<open>sf::err()\<close> are recorded in a log of diagnostics.
\<close>

type_synonym GLhandle = "32 word"
type_synonym GLint = int
type_synonym texture_ptr = nat

datatype shader_type = GL_VERTEX_SHADER | GL_GEOMETRY_SHADER | GL_FRAGMENT_SHADER

datatype uniform_call =
    glUniform1f real
  | glUniform2f real real
  | glUniform3f real real real
  | glUniform4f real real real real
  | glUniform1i int
  | glUniform2i int int
  | glUniform3i int int int
  | glUniform4i int int int int
  | glUniformMatrix3fv nat "real list"
  | glUniformMatrix4fv nat "real list"
  | glUniform1fv nat "real list"
  | glUniform2fv nat "real list"
  | glUniform3fv nat "real list"
  | glUniform4fv nat "real list"

datatype gl_call =
    TransientContextLock_acquire
  | TransientContextLock_release
  | glGetCurrentProgram
  | glUseProgramObject GLhandle
  | glGetUniformLocation GLhandle string
  | glUniform GLint uniform_call
  | glDeleteProgram GLhandle
  | glCreateProgramObject
  | glCreateShaderObject shader_type
  | glShaderSource GLhandle string
  | glCompileShader GLhandle
  | glGetCompileStatus GLhandle
  | glGetShaderInfoLog GLhandle
  | glDeleteShader GLhandle
  | glAttachShader GLhandle GLhandle
  | glLinkProgram GLhandle
  | glGetLinkStatus GLhandle
  | glGetProgramInfoLog GLhandle
  | glFlush

text \<open>The messages of Shader.cpp, one constructor per message text.\<close>

datatype shader_err =
    ErrUniformNotFound string
  | ErrTextureUnitsUsed string
  | ErrShadersUnsupported
  | ErrGeometryUnsupported
  | ErrCompileFailed shader_type string
  | ErrLinkFailed string

record gl_backend =
  uniformLocationOf :: "GLhandle \<Rightarrow> string \<Rightarrow> GLint"
  maxCombinedTextureImageUnits :: GLint
  createdProgram :: GLhandle
  createdShader :: "shader_type \<Rightarrow> GLhandle"
  compileStatus :: "shader_type \<Rightarrow> string \<Rightarrow> bool"
  shaderInfoLog :: "shader_type \<Rightarrow> string \<Rightarrow> string"
  linkStatus :: "string option \<Rightarrow> string option \<Rightarrow> string option \<Rightarrow> bool"
  programInfoLog :: "string option \<Rightarrow> string option \<Rightarrow> string option \<Rightarrow> string"
  shaderAvailable :: bool
  geometryAvailable :: bool
  openglES :: bool

record Shader =
  m_shaderProgram :: GLhandle
  m_currentTexture :: GLint
  m_textures :: "GLint \<rightharpoonup> texture_ptr"
  m_uniforms :: "string \<rightharpoonup> GLint"

text \<open>
  The state a member function of \<open>Shader\<close> works on: the object itself, the program the
  context has in use, the trace and the log.
\<close>

record sstate =
  self :: Shader
  boundProgram :: GLhandle
  glCalls :: "gl_call list"
  errLog :: "shader_err list"

definition emit :: "gl_call \<Rightarrow> sstate \<Rightarrow> sstate" where
  "emit c w = w\<lparr>glCalls := glCalls w @ [c]\<rparr>"

definition logErr :: "shader_err \<Rightarrow> sstate \<Rightarrow> sstate" where
  "logErr e w = w\<lparr>errLog := errLog w @ [e]\<rparr>"

definition useProgram :: "GLhandle \<Rightarrow> sstate \<Rightarrow> sstate" where
  "useProgram p w = (emit (glUseProgramObject p) w)\<lparr>boundProgram := p\<rparr>"

text \<open>\<open>Shader::Shader()\<close>\<close>

definition Shader_new :: Shader where
  "Shader_new = \<lparr>m_shaderProgram = 0, m_currentTexture = -1,
                 m_textures = Map.empty, m_uniforms = Map.empty\<rparr>"

text \<open>
  \<open>getMaxTextureUnits\<close>: the \<open>GLint\<close> the backend reports, converted to \<open>std::size_t\<close>
  (64 bits; the width plays no role for a non-negative count).
\<close>

definition getMaxTextureUnits :: "gl_backend \<Rightarrow> nat" where
  "getMaxTextureUnits bk = nat (maxCombinedTextureImageUnits bk mod 2 ^ 64)"

text \<open>\<open>Shader::getUniformLocation\<close>\<close>

definition getUniformLocation :: "gl_backend \<Rightarrow> string \<Rightarrow> sstate \<Rightarrow> GLint \<times> sstate" where
  "getUniformLocation bk name w =
     (case m_uniforms (self w) name of
        Some loc \<Rightarrow> (loc, w)
      | None \<Rightarrow>
          (let location = uniformLocationOf bk (m_shaderProgram (self w)) name;
               w1 = emit (glGetUniformLocation (m_shaderProgram (self w)) name) w;
               w2 = w1\<lparr>self := (self w1)\<lparr>m_uniforms := (m_uniforms (self w1))(name \<mapsto> location)\<rparr>\<rparr>;
               w3 = (if location = -1 then logErr (ErrUniformNotFound name) w2 else w2)
           in (location, w3)))"

text \<open>
  \<open>Shader::UniformBinder\<close>: the constructor takes the context lock (the first member),
  binds the program and resolves the location; the destructor restores the saved program and
  then releases the lock.
\<close>

record UniformBinder =
  savedProgram :: GLhandle
  currentProgram :: GLhandle
  location :: GLint

definition UniformBinder_ctor :: "gl_backend \<Rightarrow> string \<Rightarrow> sstate \<Rightarrow> UniformBinder \<times> sstate" where
  "UniformBinder_ctor bk name w =
     (let w1 = emit TransientContextLock_acquire w;
          cur = m_shaderProgram (self w1)
      in if cur \<noteq> 0 then
           (let saved = boundProgram w1;
                w2 = emit glGetCurrentProgram w1;
                w3 = (if cur \<noteq> saved then useProgram cur w2 else w2);
                (loc, w4) = getUniformLocation bk name w3
            in (\<lparr>savedProgram = saved, currentProgram = cur, location = loc\<rparr>, w4))
         else (\<lparr>savedProgram = 0, currentProgram = cur, location = -1\<rparr>, w1))"

definition UniformBinder_dtor :: "UniformBinder \<Rightarrow> sstate \<Rightarrow> sstate" where
  "UniformBinder_dtor b w =
     (let w1 = (if currentProgram b \<noteq> 0 \<and> currentProgram b \<noteq> savedProgram b
                then useProgram (savedProgram b) w else w)
      in emit TransientContextLock_release w1)"

text \<open>
  The body shared by every value overload of \<open>setUniform\<close> and \<open>setUniformArray\<close>:
  a binder, and the API call when the location is not -1.
\<close>

definition withBinder :: "gl_backend \<Rightarrow> string \<Rightarrow> uniform_call \<Rightarrow> sstate \<Rightarrow> sstate" where
  "withBinder bk name u w =
     (let (binder, w1) = UniformBinder_ctor bk name w;
          w2 = (if location binder \<noteq> -1 then emit (glUniform (location binder) u) w1 else w1)
      in UniformBinder_dtor binder w2)"

text \<open>\<open>Shader::setUniform(const std::string&, const Texture&)\<close>\<close>

definition setUniform_Texture :: "gl_backend \<Rightarrow> string \<Rightarrow> texture_ptr \<Rightarrow> sstate \<Rightarrow> sstate" where
  "setUniform_Texture bk name texture w =
     (if m_shaderProgram (self w) \<noteq> 0 then
        (let w1 = emit TransientContextLock_acquire w;
             (loc, w2) = getUniformLocation bk name w1
         in if loc \<noteq> -1 then
              (case m_textures (self w2) loc of
                 None \<Rightarrow>
                   if card (dom (m_textures (self w2))) + 1 \<ge> getMaxTextureUnits bk
                   then emit TransientContextLock_release (logErr (ErrTextureUnitsUsed name) w2)
                   else emit TransientContextLock_release
                          (w2\<lparr>self := (self w2)\<lparr>m_textures := (m_textures (self w2))(loc \<mapsto> texture)\<rparr>\<rparr>)
               | Some _ \<Rightarrow>
                   emit TransientContextLock_release
                     (w2\<lparr>self := (self w2)\<lparr>m_textures := (m_textures (self w2))(loc \<mapsto> texture)\<rparr>\<rparr>))
            else emit TransientContextLock_release w2)
      else w)"

text \<open>\<open>Shader::setUniform(const std::string&, CurrentTextureType)\<close>\<close>

definition setUniform_CurrentTexture :: "gl_backend \<Rightarrow> string \<Rightarrow> sstate \<Rightarrow> sstate" where
  "setUniform_CurrentTexture bk name w =
     (if m_shaderProgram (self w) \<noteq> 0 then
        (let w1 = emit TransientContextLock_acquire w;
             (loc, w2) = getUniformLocation bk name w1
         in emit TransientContextLock_release (w2\<lparr>self := (self w2)\<lparr>m_currentTexture := loc\<rparr>\<rparr>))
      else w)"

text \<open>
  The value overloads of \<open>Shader::setUniform\<close>, one constructor per overload. The
  \<open>bool\<close> overloads convert to the \<open>int\<close> ones, as the source does.
\<close>

datatype uniform_value =
    U_float real
  | U_Vec2 real real
  | U_Vec3 real real real
  | U_Vec4 real real real real
  | U_int int
  | U_Ivec2 int int
  | U_Ivec3 int int int
  | U_Ivec4 int int int int
  | U_bool bool
  | U_Bvec2 bool bool
  | U_Bvec3 bool bool bool
  | U_Bvec4 bool bool bool bool
  | U_Mat3 "real list"
  | U_Mat4 "real list"
  | U_Texture texture_ptr
  | U_CurrentTexture

fun setUniform :: "gl_backend \<Rightarrow> string \<Rightarrow> uniform_value \<Rightarrow> sstate \<Rightarrow> sstate" where
  "setUniform bk name (U_float x) w = withBinder bk name (glUniform1f x) w"
| "setUniform bk name (U_Vec2 x y) w = withBinder bk name (glUniform2f x y) w"
| "setUniform bk name (U_Vec3 x y z) w = withBinder bk name (glUniform3f x y z) w"
| "setUniform bk name (U_Vec4 x y z t) w = withBinder bk name (glUniform4f x y z t) w"
| "setUniform bk name (U_int x) w = withBinder bk name (glUniform1i x) w"
| "setUniform bk name (U_Ivec2 x y) w = withBinder bk name (glUniform2i x y) w"
| "setUniform bk name (U_Ivec3 x y z) w = withBinder bk name (glUniform3i x y z) w"
| "setUniform bk name (U_Ivec4 x y z t) w = withBinder bk name (glUniform4i x y z t) w"
| "setUniform bk name (U_bool x) w = withBinder bk name (glUniform1i (of_bool x)) w"
| "setUniform bk name (U_Bvec2 x y) w = withBinder bk name (glUniform2i (of_bool x) (of_bool y)) w"
| "setUniform bk name (U_Bvec3 x y z) w =
     withBinder bk name (glUniform3i (of_bool x) (of_bool y) (of_bool z)) w"
| "setUniform bk name (U_Bvec4 x y z t) w =
     withBinder bk name (glUniform4i (of_bool x) (of_bool y) (of_bool z) (of_bool t)) w"
| "setUniform bk name (U_Mat3 m) w = withBinder bk name (glUniformMatrix3fv 1 m) w"
| "setUniform bk name (U_Mat4 m) w = withBinder bk name (glUniformMatrix4fv 1 m) w"
| "setUniform bk name (U_Texture t) w = setUniform_Texture bk name t w"
| "setUniform bk name U_CurrentTexture w = setUniform_CurrentTexture bk name w"

text \<open>
  \<open>Shader::setUniformArray\<close>: the array and its length are one list. Vectors and matrices
  are flattened into a contiguous array before the binder is built.
\<close>

datatype uniform_array =
    A_float "real list"
  | A_Vec2 "(real \<times> real) list"
  | A_Vec3 "(real \<times> real \<times> real) list"
  | A_Vec4 "(real \<times> real \<times> real \<times> real) list"
  | A_Mat3 "real list list"
  | A_Mat4 "real list list"

definition flatten2 :: "(real \<times> real) list \<Rightarrow> real list" where
  "flatten2 vs = concat (map (\<lambda>(x, y). [x, y]) vs)"

definition flatten3 :: "(real \<times> real \<times> real) list \<Rightarrow> real list" where
  "flatten3 vs = concat (map (\<lambda>(x, y, z). [x, y, z]) vs)"

definition flatten4 :: "(real \<times> real \<times> real \<times> real) list \<Rightarrow> real list" where
  "flatten4 vs = concat (map (\<lambda>(x, y, z, t). [x, y, z, t]) vs)"

fun setUniformArray :: "gl_backend \<Rightarrow> string \<Rightarrow> uniform_array \<Rightarrow> sstate \<Rightarrow> sstate" where
  "setUniformArray bk name (A_float xs) w = withBinder bk name (glUniform1fv (length xs) xs) w"
| "setUniformArray bk name (A_Vec2 vs) w =
     withBinder bk name (glUniform2fv (length vs) (flatten2 vs)) w"
| "setUniformArray bk name (A_Vec3 vs) w =
     withBinder bk name (glUniform3fv (length vs) (flatten3 vs)) w"
| "setUniformArray bk name (A_Vec4 vs) w =
     withBinder bk name (glUniform4fv (length vs) (flatten4 vs)) w"
| "setUniformArray bk name (A_Mat3 ms) w =
     withBinder bk name (glUniformMatrix3fv (length ms) (concat (map (take 9) ms))) w"
| "setUniformArray bk name (A_Mat4 ms) w =
     withBinder bk name (glUniformMatrix4fv (length ms) (concat (map (take 16) ms))) w"

text \<open>
  The deprecated \<open>Shader::setParameter\<close> overloads forward to \<open>setUniform\<close>. A colour
  becomes a \<open>Vec4\<close> of its channels over 255, a transform a \<open>Mat4\<close> of its matrix.
\<close>

datatype parameter_value =
    P_float1 real
  | P_float2 real real
  | P_float3 real real real
  | P_float4 real real real real
  | P_Vector2f real real
  | P_Vector3f real real real
  | P_Color "8 word" "8 word" "8 word" "8 word"
  | P_Transform "real list"
  | P_Texture texture_ptr
  | P_CurrentTexture

fun setParameter :: "gl_backend \<Rightarrow> string \<Rightarrow> parameter_value \<Rightarrow> sstate \<Rightarrow> sstate" where
  "setParameter bk name (P_float1 x) w = setUniform bk name (U_float x) w"
| "setParameter bk name (P_float2 x y) w = setUniform bk name (U_Vec2 x y) w"
| "setParameter bk name (P_float3 x y z) w = setUniform bk name (U_Vec3 x y z) w"
| "setParameter bk name (P_float4 x y z t) w = setUniform bk name (U_Vec4 x y z t) w"
| "setParameter bk name (P_Vector2f x y) w = setUniform bk name (U_Vec2 x y) w"
| "setParameter bk name (P_Vector3f x y z) w = setUniform bk name (U_Vec3 x y z) w"
| "setParameter bk name (P_Color r g b a) w =
     setUniform bk name
       (U_Vec4 (real (unat r) / 255) (real (unat g) / 255) (real (unat b) / 255) (real (unat a) / 255)) w"
| "setParameter bk name (P_Transform m) w = setUniform bk name (U_Mat4 m) w"
| "setParameter bk name (P_Texture t) w = setUniform bk name (U_Texture t) w"
| "setParameter bk name P_CurrentTexture w = setUniform bk name U_CurrentTexture w"

text \<open>\<open>Shader::getNativeHandle\<close>\<close>

definition getNativeHandle :: "Shader \<Rightarrow> GLhandle" where
  "getNativeHandle s = m_shaderProgram s"

text \<open>
  One stage of \<open>Shader::compile\<close> (the source repeats this block for the vertex, geometry
  and fragment stage): create, compile, then either attach, or log, clean up and fail.
\<close>

definition compileStage ::
  "gl_backend \<Rightarrow> shader_type \<Rightarrow> string \<Rightarrow> GLhandle \<Rightarrow> sstate \<Rightarrow> bool \<times> sstate" where
  "compileStage bk ty code shaderProgram w =
     (let shader = createdShader bk ty;
          w1 = emit (glGetCompileStatus shader) (emit (glCompileShader shader)
                 (emit (glShaderSource shader code) (emit (glCreateShaderObject ty) w)))
      in if \<not> compileStatus bk ty code then
           (False, emit (glDeleteProgram shaderProgram) (emit (glDeleteShader shader)
                     (logErr (ErrCompileFailed ty (shaderInfoLog bk ty code))
                        (emit (glGetShaderInfoLog shader) w1))))
         else (True, emit (glDeleteShader shader) (emit (glAttachShader shaderProgram shader) w1)))"

definition compileOptional ::
  "gl_backend \<Rightarrow> shader_type \<Rightarrow> string option \<Rightarrow> GLhandle \<Rightarrow> sstate \<Rightarrow> bool \<times> sstate" where
  "compileOptional bk ty code shaderProgram w =
     (case code of None \<Rightarrow> (True, w) | Some c \<Rightarrow> compileStage bk ty c shaderProgram w)"

text \<open>
  \<open>Shader::compile\<close>. The geometry stage is compiled out of an OpenGL ES build. The lock taken
  on entry is released on every return.
\<close>

definition resetShader :: "sstate \<Rightarrow> sstate" where
  "resetShader w =
     (let w1 = (if m_shaderProgram (self w) \<noteq> 0
                then (emit (glDeleteProgram (m_shaderProgram (self w))) w)
                       \<lparr>self := (self w)\<lparr>m_shaderProgram := 0\<rparr>\<rparr>
                else w)
      in w1\<lparr>self := (self w1)\<lparr>m_currentTexture := -1, m_textures := Map.empty,
                                 m_uniforms := Map.empty\<rparr>\<rparr>)"

definition linkProgram ::
  "gl_backend \<Rightarrow> string option \<Rightarrow> string option \<Rightarrow> string option \<Rightarrow> GLhandle \<Rightarrow> sstate
     \<Rightarrow> bool \<times> sstate" where
  "linkProgram bk v g f shaderProgram w =
     (let w1 = emit (glGetLinkStatus shaderProgram) (emit (glLinkProgram shaderProgram) w)
      in if \<not> linkStatus bk v g f then
           (False, emit (glDeleteProgram shaderProgram)
                     (logErr (ErrLinkFailed (programInfoLog bk v g f))
                        (emit (glGetProgramInfoLog shaderProgram) w1)))
         else (True, emit glFlush (w1\<lparr>self := (self w1)\<lparr>m_shaderProgram := shaderProgram\<rparr>\<rparr>)))"

definition compile ::
  "gl_backend \<Rightarrow> string option \<Rightarrow> string option \<Rightarrow> string option \<Rightarrow> sstate \<Rightarrow> bool \<times> sstate" where
  "compile bk vertexShaderCode geometryShaderCode fragmentShaderCode w =
     (let w0 = emit TransientContextLock_acquire w in
      if \<not> shaderAvailable bk then
        (False, emit TransientContextLock_release (logErr ErrShadersUnsupported w0))
      else if geometryShaderCode \<noteq> None \<and> \<not> geometryAvailable bk then
        (False, emit TransientContextLock_release (logErr ErrGeometryUnsupported w0))
      else
        (let w1 = resetShader w0;
             shaderProgram = createdProgram bk;
             w2 = emit glCreateProgramObject w1;
             (ok3, w3) = compileOptional bk GL_VERTEX_SHADER vertexShaderCode shaderProgram w2
         in if \<not> ok3 then (False, emit TransientContextLock_release w3)
            else
              (let (ok4, w4) =
                     (if openglES bk then (True, w3)
                      else compileOptional bk GL_GEOMETRY_SHADER geometryShaderCode shaderProgram w3)
               in if \<not> ok4 then (False, emit TransientContextLock_release w4)
                  else
                    (let (ok5, w5) =
                           compileOptional bk GL_FRAGMENT_SHADER fragmentShaderCode shaderProgram w4
                     in if \<not> ok5 then (False, emit TransientContextLock_release w5)
                        else
                          (let (ok6, w6) =
                                 linkProgram bk vertexShaderCode geometryShaderCode
                                   fragmentShaderCode shaderProgram w5
                           in (ok6, emit TransientContextLock_release w6))))))"

subsection \<open>Sequences of calls on one shader\<close>

datatype uniform_op =
    SetUniform string uniform_value
  | SetUniformArray string uniform_array
  | SetParameter string parameter_value

fun run_op :: "gl_backend \<Rightarrow> uniform_op \<Rightarrow> sstate \<Rightarrow> sstate" where
  "run_op bk (SetUniform name v) w = setUniform bk name v w"
| "run_op bk (SetUniformArray name a) w = setUniformArray bk name a w"
| "run_op bk (SetParameter name v) w = setParameter bk name v w"

fun run_ops :: "gl_backend \<Rightarrow> uniform_op list \<Rightarrow> sstate \<Rightarrow> sstate" where
  "run_ops bk [] w = w"
| "run_ops bk (c # cs) w = run_ops bk cs (run_op bk c w)"

text \<open>The backend queries for one uniform name in a trace, and the log lines for it.\<close>

definition locationQueries :: "string \<Rightarrow> gl_call list \<Rightarrow> nat" where
  "locationQueries name cs = length (filter (\<lambda>c. \<exists>p. c = glGetUniformLocation p name) cs)"

definition notFoundLines :: "string \<Rightarrow> shader_err list \<Rightarrow> nat" where
  "notFoundLines name es = count_list es (ErrUniformNotFound name)"

text \<open>
  What a later call leaves in place for a cached name: the entry, the program, the number of
  backend queries and of log lines for that name.
\<close>

definition keeps :: "string \<Rightarrow> GLint \<Rightarrow> sstate \<Rightarrow> sstate \<Rightarrow> bool" where
  "keeps n l w w' \<longleftrightarrow>
     m_uniforms (self w') n = Some l \<and>
     m_shaderProgram (self w') = m_shaderProgram (self w) \<and>
     locationQueries n (glCalls w') = locationQueries n (glCalls w) \<and>
     notFoundLines n (errLog w') = notFoundLines n (errLog w)"

subsection \<open>Concrete inputs\<close>

definition example_backend :: gl_backend where
  "example_backend =
     \<lparr>uniformLocationOf = (\<lambda>p n. if n = ''color'' then 3 else if n = ''tex0'' then 4
                                 else if n = ''tex1'' then 6 else -1),
      maxCombinedTextureImageUnits = 2,
      createdProgram = 7,
      createdShader = (\<lambda>ty. 9),
      compileStatus = (\<lambda>ty code. code \<noteq> ''syntax error''),
      shaderInfoLog = (\<lambda>ty code. ''0:1: error''),
      linkStatus = (\<lambda>v g f. True),
      programInfoLog = (\<lambda>v g f. []),
      shaderAvailable = True,
      geometryAvailable = False,
      openglES = True\<rparr>"

definition example_shader :: sstate where
  "example_shader =
     \<lparr>self = \<lparr>m_shaderProgram = 5, m_currentTexture = -1,
               m_textures = Map.empty, m_uniforms = Map.empty\<rparr>,
      boundProgram = 0, glCalls = [], errLog = []\<rparr>"

definition unlinked_shader :: sstate where
  "unlinked_shader = \<lparr>self = Shader_new, boundProgram = 0, glCalls = [], errLog = []\<rparr>"

text \<open>The location a name resolves to on a shader: what \<open>getUniformLocation\<close> returns for it.\<close>

definition resolvedLocation :: "gl_backend \<Rightarrow> sstate \<Rightarrow> string \<Rightarrow> GLint" where
  "resolvedLocation bk w name = fst (getUniformLocation bk name w)"

text \<open>A caller binding textures to names, one \<open>setUniform(name, texture)\<close> call each, in order.\<close>

definition setTextures :: "gl_backend \<Rightarrow> (string \<times> texture_ptr) list \<Rightarrow> sstate \<Rightarrow> sstate" where
  "setTextures bk nts w = fold (\<lambda>(name, texture). setUniform bk name (U_Texture texture)) nts w"

text \<open>Source that fails: a stage that is given and does not compile, or a program that does not link.\<close>

definition stageFails :: "gl_backend \<Rightarrow> shader_type \<Rightarrow> string option \<Rightarrow> bool" where
  "stageFails bk ty code = (case code of None \<Rightarrow> False | Some c \<Rightarrow> \<not> compileStatus bk ty c)"

definition sourceFails ::
  "gl_backend \<Rightarrow> string option \<Rightarrow> string option \<Rightarrow> string option \<Rightarrow> bool" where
  "sourceFails bk v g f \<longleftrightarrow>
     stageFails bk GL_VERTEX_SHADER v
     \<or> (\<not> openglES bk \<and> stageFails bk GL_GEOMETRY_SHADER g)
     \<or> stageFails bk GL_FRAGMENT_SHADER f
     \<or> \<not> linkStatus bk v g f"

definition full_shader :: sstate where
  "full_shader =
     \<lparr>self = \<lparr>m_shaderProgram = 5, m_currentTexture = -1,
               m_textures = [4 \<mapsto> 11], m_uniforms = Map.empty\<rparr>,
      boundProgram = 0, glCalls = [], errLog = []\<rparr>"

text \<open>A later state of the same object: the shader as it was, the trace extended.\<close>

definition grows :: "sstate \<Rightarrow> sstate \<Rightarrow> bool" where
  "grows w w' \<longleftrightarrow> self w' = self w \<and> (\<exists>r. glCalls w' = glCalls w @ r)"

definition bad_fragment :: "string option" where
  "bad_fragment = Some ''syntax error''"

section \<open>Render target (src/SFML/Graphics/RenderTarget.cpp)\<close>

text \<open>
  Compile-time switches (\<open>SFML_OPENGL_ES\<close>, \<open>SFML_SYSTEM_MACOS\<close>), the capability flags
  of GLExtensions.hpp, and what RenderTarget.cpp takes from files outside the sources at hand
  (the size of the vertex cache, \<open>sf::BlendAlpha\<close>, \<open>Transform\<close>'s point transformation, the
  built-in shaders, attribute locations) are fields of a \<open>platform\<close> value. Single-precision
  arithmetic is a parameter too: a \<open>float\<close> is the real number it denotes, and the rounded
  operations are \<open>float_add\<close>, \<open>float_mul\<close>, \<open>float_div\<close> and \<open>float_of_uint\<close>.
\<close>

type_synonym Uint64 = "64 word"
type_synonym Vector2f = "real \<times> real"
type_synonym Vector2u = "nat \<times> nat"
type_synonym Transform = "real list"
type_synonym Color = "8 word \<times> 8 word \<times> 8 word \<times> 8 word"

record 'a Rect =
  rect_left :: 'a
  rect_top :: 'a
  rect_width :: 'a
  rect_height :: 'a

type_synonym IntRect = "int Rect"
type_synonym FloatRect = "real Rect"

record View =
  viewport :: FloatRect
  viewTransform :: Transform

datatype Factor =
    FactorZero | FactorOne | FactorSrcColor | FactorOneMinusSrcColor | FactorDstColor
  | FactorOneMinusDstColor | FactorSrcAlpha | FactorOneMinusSrcAlpha | FactorDstAlpha
  | FactorOneMinusDstAlpha

datatype Equation =
    EquationAdd | EquationSubtract | EquationReverseSubtract | EquationMin | EquationMax

record BlendMode =
  colorSrcFactor :: Factor
  colorDstFactor :: Factor
  colorEquation :: Equation
  alphaSrcFactor :: Factor
  alphaDstFactor :: Factor
  alphaEquation :: Equation

datatype PrimitiveType =
  Points | Lines | LineStrip | Triangles | TriangleStrip | TriangleFan | Quads

record Vertex =
  position :: Vector2f
  color :: Color
  texCoords :: Vector2f

record Texture =
  m_cacheId :: Uint64
  m_fboAttachment :: bool
  m_size :: Vector2u
  m_actualSize :: Vector2u
  m_pixelsFlipped :: bool

text \<open>A shader as the render target sees it: which object it is, and its native handle.\<close>

record ShaderRef =
  shaderObject :: nat
  nativeHandle :: GLhandle

record VertexBuffer =
  vb_vertexCount :: nat
  vb_nativeHandle :: "32 word"
  vb_primitiveType :: PrimitiveType

record RenderStates =
  blendMode :: BlendMode
  transform :: Transform
  texture :: "Texture option"
  shader :: "ShaderRef option"

record platform =
  SFML_OPENGL_ES :: bool
  SFML_SYSTEM_MACOS :: bool
  GLEXT_multitexture :: bool
  GLEXT_blend_func_separate :: bool
  GLEXT_blend_minmax :: bool
  GLEXT_blend_subtract :: bool
  GLEXT_blend_equation_separate :: bool
  Shader_isAvailable :: bool
  VertexBuffer_isAvailable :: bool
  VertexCacheSize :: nat
  BlendAlpha :: BlendMode
  transformPoint :: "Transform \<Rightarrow> Vector2f \<Rightarrow> Vector2f"
  getDefaultShader :: ShaderRef
  getDefaultTexShader :: ShaderRef
  attribLocationOf :: "GLhandle \<Rightarrow> string \<Rightarrow> GLint"
  float_add :: "real \<Rightarrow> real \<Rightarrow> real"
  float_mul :: "real \<Rightarrow> real \<Rightarrow> real"
  float_div :: "real \<Rightarrow> real \<Rightarrow> real"
  float_of_uint :: "nat \<Rightarrow> real"

datatype gl_capability =
    GL_CULL_FACE | GL_DEPTH_TEST | GL_BLEND | GL_ALPHA_TEST | GL_LIGHTING | GL_TEXTURE_2D
  | GL_FRAMEBUFFER_SRGB

datatype gl_client_array = GL_VERTEX_ARRAY | GL_COLOR_ARRAY | GL_TEXTURE_COORD_ARRAY

datatype gl_matrix_mode = GL_MODELVIEW | GL_PROJECTION

datatype gl_blend_factor =
    GL_ZERO | GL_ONE | GL_SRC_COLOR | GL_ONE_MINUS_SRC_COLOR | GL_DST_COLOR
  | GL_ONE_MINUS_DST_COLOR | GL_SRC_ALPHA | GL_ONE_MINUS_SRC_ALPHA | GL_DST_ALPHA
  | GL_ONE_MINUS_DST_ALPHA

datatype gl_blend_equation =
  GL_FUNC_ADD | GL_FUNC_SUBTRACT | GL_FUNC_REVERSE_SUBTRACT | GL_MIN | GL_MAX

datatype gl_primitive =
    GL_POINTS | GL_LINES | GL_LINE_STRIP | GL_TRIANGLES | GL_TRIANGLE_STRIP | GL_TRIANGLE_FAN
  | GL_QUADS

text \<open>
  Where a vertex-array pointer points: the caller's array, the target's internal vertex cache,
  or an offset into the bound vertex buffer.
\<close>

datatype vertex_data = CallerVertices "Vertex list" | InternalVertexCache | BoundBuffer

datatype shader_value = Mat4 "real list" | Vec2 real real

text \<open>
  The calls a render target makes, in the graphics API and in its collaborators
  (\<open>Texture::bind\<close>, \<open>Shader::bind\<close>, \<open>Shader::setUniform\<close>, \<open>VertexBuffer::bind\<close>,
  \<open>priv::ensureExtensionsInit\<close>). A pointer call carries the data it points to and the byte
  offset; \<open>glDrawArrays\<close> carries the first vertex and the count as the \<open>std::size_t\<close>
  values the code casts.
\<close>

datatype rt_call =
    glEnable gl_capability
  | glDisable gl_capability
  | glEnableClientState gl_client_array
  | glDisableClientState gl_client_array
  | glMatrixMode gl_matrix_mode
  | glLoadIdentity
  | glLoadMatrixf "real list"
  | glViewport int int int int
  | glBlendFuncSeparate gl_blend_factor gl_blend_factor gl_blend_factor gl_blend_factor
  | glBlendFunc gl_blend_factor gl_blend_factor
  | glBlendEquationSeparate gl_blend_equation gl_blend_equation
  | glBlendEquation gl_blend_equation
  | glClientActiveTexture0
  | glActiveTexture0
  | glVertexPointer vertex_data nat
  | glColorPointer vertex_data nat
  | glTexCoordPointer vertex_data nat
  | glVertexAttribPointer GLint vertex_data nat
  | glEnableVertexAttribArray GLint
  | glDisableVertexAttribArray GLint
  | glDrawArrays gl_primitive nat nat
  | glGetAttribLocation GLhandle string
  | Texture_bind "Texture option"
  | Shader_bind "ShaderRef option"
  | Shader_setUniform ShaderRef string shader_value
  | VertexBuffer_bind "VertexBuffer option"
  | ensureExtensionsInit

text \<open>The messages of RenderTarget.cpp: each constructor is one block of \<open>err()\<close> lines.\<close>

datatype rt_err =
    ErrQuadsUnsupported
  | ErrVertexBufferUnavailable
  | WarnEquationFallback
  | WarnBlendEquationUnavailable

record StatesCache =
  enable :: bool
  glStatesSet :: bool
  viewChanged :: bool
  lastBlendMode :: BlendMode
  lastTextureId :: Uint64
  texCoordsArrayEnabled :: bool
  useVertexCache :: bool
  vertexCache :: "Vertex list"
  programChanged :: GLhandle
  posAttrib :: GLint
  colAttrib :: GLint
  texAttrib :: GLint

text \<open>\<open>getSize\<close> is pure virtual in \<open>RenderTarget\<close>: the derived class's answer is a field.\<close>

record RenderTarget =
  m_defaultView :: View
  m_view :: View
  m_cache :: StatesCache
  m_id :: Uint64
  getSize :: Vector2u

text \<open>
  The state a member function of \<open>RenderTarget\<close> works on: the object, and what the process
  shares (the context-to-target map, the two static \<open>warned\<close> flags, the trace, the log).
\<close>

record rstate =
  target :: RenderTarget
  contextRenderTargetMap :: "Uint64 \<rightharpoonup> Uint64"
  warned_equationToGlConstant :: bool
  warned_applyBlendMode :: bool
  commands :: "rt_call list"
  errors :: "rt_err list"

definition call :: "rt_call \<Rightarrow> rstate \<Rightarrow> rstate" where
  "call c w = w\<lparr>commands := commands w @ [c]\<rparr>"

definition err :: "rt_err \<Rightarrow> rstate \<Rightarrow> rstate" where
  "err e w = w\<lparr>errors := errors w @ [e]\<rparr>"

definition cache :: "rstate \<Rightarrow> StatesCache" where
  "cache w = m_cache (target w)"

definition setCache :: "(StatesCache \<Rightarrow> StatesCache) \<Rightarrow> rstate \<Rightarrow> rstate" where
  "setCache f w = w\<lparr>target := (target w)\<lparr>m_cache := f (m_cache (target w))\<rparr>\<rparr>"

definition Transform_Identity :: Transform where
  "Transform_Identity = [1, 0, 0, 0,  0, 1, 0, 0,  0, 0, 1, 0,  0, 0, 0, 1]"

text \<open>\<open>RenderTargetImpl::isActive\<close>, for the context that is current.\<close>

definition isActive :: "Uint64 \<Rightarrow> Uint64 \<Rightarrow> rstate \<Rightarrow> bool" where
  "isActive id' contextId w =
     (case contextRenderTargetMap w contextId of None \<Rightarrow> False | Some i \<Rightarrow> \<not> (i \<noteq> id'))"

text \<open>\<open>RenderTargetImpl::factorToGlConstant\<close>\<close>

fun factorToGlConstant :: "Factor \<Rightarrow> gl_blend_factor" where
  "factorToGlConstant FactorZero = GL_ZERO"
| "factorToGlConstant FactorOne = GL_ONE"
| "factorToGlConstant FactorSrcColor = GL_SRC_COLOR"
| "factorToGlConstant FactorOneMinusSrcColor = GL_ONE_MINUS_SRC_COLOR"
| "factorToGlConstant FactorDstColor = GL_DST_COLOR"
| "factorToGlConstant FactorOneMinusDstColor = GL_ONE_MINUS_DST_COLOR"
| "factorToGlConstant FactorSrcAlpha = GL_SRC_ALPHA"
| "factorToGlConstant FactorOneMinusSrcAlpha = GL_ONE_MINUS_SRC_ALPHA"
| "factorToGlConstant FactorDstAlpha = GL_DST_ALPHA"
| "factorToGlConstant FactorOneMinusDstAlpha = GL_ONE_MINUS_DST_ALPHA"

text \<open>
  \<open>RenderTargetImpl::equationToGlConstant\<close>: the switch returns a constant or falls through;
  after a fall-through the function warns once (its static flag) and returns the additive
  equation.
\<close>

fun equationSwitch :: "platform \<Rightarrow> Equation \<Rightarrow> gl_blend_equation option" where
  "equationSwitch pf EquationAdd = Some GL_FUNC_ADD"
| "equationSwitch pf EquationSubtract =
     (if GLEXT_blend_subtract pf then Some GL_FUNC_SUBTRACT else None)"
| "equationSwitch pf EquationReverseSubtract =
     (if GLEXT_blend_subtract pf then Some GL_FUNC_REVERSE_SUBTRACT else None)"
| "equationSwitch pf EquationMin = (if GLEXT_blend_minmax pf then Some GL_MIN else None)"
| "equationSwitch pf EquationMax = (if GLEXT_blend_minmax pf then Some GL_MAX else None)"

definition equationToGlConstant ::
  "platform \<Rightarrow> Equation \<Rightarrow> rstate \<Rightarrow> gl_blend_equation \<times> rstate" where
  "equationToGlConstant pf blendEquation w =
     (case equationSwitch pf blendEquation of
        Some c \<Rightarrow> (c, w)
      | None \<Rightarrow>
          (GL_FUNC_ADD,
           if \<not> warned_equationToGlConstant w
           then (err WarnEquationFallback w)\<lparr>warned_equationToGlConstant := True\<rparr>
           else w))"

text \<open>\<open>RenderTarget::setView\<close>, \<open>getView\<close>\<close>

definition setView :: "View \<Rightarrow> rstate \<Rightarrow> rstate" where
  "setView view w = setCache (\<lambda>c. c\<lparr>viewChanged := True\<rparr>) (w\<lparr>target := (target w)\<lparr>m_view := view\<rparr>\<rparr>)"

definition getView :: "rstate \<Rightarrow> View" where
  "getView w = m_view (target w)"

text \<open>
  \<open>static_cast<int>\<close> of a \<open>float\<close> discards the fractional part. (Outside the range of
  \<open>int\<close> the conversion is undefined in C++; \<open>int_castable\<close> says a value is inside.)
\<close>

definition static_cast_int :: "real \<Rightarrow> int" where
  "static_cast_int x = (if 0 \<le> x then \<lfloor>x\<rfloor> else \<lceil>x\<rceil>)"

definition int_castable :: "real \<Rightarrow> bool" where
  "int_castable x \<longleftrightarrow> - (2 ^ 31) - 1 < x \<and> x < 2 ^ 31"

text \<open>\<open>RenderTarget::getViewport\<close>\<close>

definition getViewport :: "platform \<Rightarrow> RenderTarget \<Rightarrow> View \<Rightarrow> IntRect" where
  "getViewport pf rt view =
     (let width = float_of_uint pf (fst (getSize rt));
          height = float_of_uint pf (snd (getSize rt));
          vp = viewport view
      in \<lparr>rect_left = static_cast_int (float_add pf 0.5 (float_mul pf width (rect_left vp))),
          rect_top = static_cast_int (float_add pf 0.5 (float_mul pf height (rect_top vp))),
          rect_width = static_cast_int (float_add pf 0.5 (float_mul pf width (rect_width vp))),
          rect_height = static_cast_int (float_add pf 0.5 (float_mul pf height (rect_height vp)))\<rparr>)"

text \<open>\<open>RenderTarget::setActive\<close>, for the context that is current.\<close>

definition setActive :: "bool \<Rightarrow> Uint64 \<Rightarrow> rstate \<Rightarrow> bool \<times> rstate" where
  "setActive active contextId w =
     (True,
      if active then
        (case contextRenderTargetMap w contextId of
           None \<Rightarrow>
             setCache (\<lambda>c. c\<lparr>glStatesSet := False, enable := False\<rparr>)
               (w\<lparr>contextRenderTargetMap :=
                    (contextRenderTargetMap w)(contextId \<mapsto> m_id (target w))\<rparr>)
         | Some i \<Rightarrow>
             if i \<noteq> m_id (target w) then
               setCache (\<lambda>c. c\<lparr>enable := False\<rparr>)
                 (w\<lparr>contextRenderTargetMap :=
                      (contextRenderTargetMap w)(contextId \<mapsto> m_id (target w))\<rparr>)
             else w)
      else
        setCache (\<lambda>c. c\<lparr>enable := False\<rparr>)
          (w\<lparr>contextRenderTargetMap := (contextRenderTargetMap w)(contextId := None)\<rparr>))"

text \<open>The guard \<open>RenderTargetImpl::isActive(m_id) || setActive(true)\<close>.\<close>

definition ensureActive :: "Uint64 \<Rightarrow> rstate \<Rightarrow> bool \<times> rstate" where
  "ensureActive contextId w =
     (if isActive (m_id (target w)) contextId w then (True, w) else setActive True contextId w)"

text \<open>\<open>RenderTarget::applyBlendMode\<close>\<close>

definition applyBlendMode :: "platform \<Rightarrow> BlendMode \<Rightarrow> rstate \<Rightarrow> rstate" where
  "applyBlendMode pf mode w =
     (let w1 =
            (if GLEXT_blend_func_separate pf then
               call (glBlendFuncSeparate
                       (factorToGlConstant (colorSrcFactor mode)) (factorToGlConstant (colorDstFactor mode))
                       (factorToGlConstant (alphaSrcFactor mode)) (factorToGlConstant (alphaDstFactor mode))) w
             else
               call (glBlendFunc
                       (factorToGlConstant (colorSrcFactor mode))
                       (factorToGlConstant (colorDstFactor mode))) w);
          w2 =
            (if GLEXT_blend_minmax pf \<or> GLEXT_blend_subtract pf then
               (if GLEXT_blend_equation_separate pf then
                  (let (ce, wa) = equationToGlConstant pf (colorEquation mode) w1;
                       (ae, wb) = equationToGlConstant pf (alphaEquation mode) wa
                   in call (glBlendEquationSeparate ce ae) wb)
                else
                  (let (ce, wa) = equationToGlConstant pf (colorEquation mode) w1
                   in call (glBlendEquation ce) wa))
             else if colorEquation mode \<noteq> EquationAdd \<or> alphaEquation mode \<noteq> EquationAdd then
               (if \<not> warned_applyBlendMode w1
                then (err WarnBlendEquationUnavailable w1)\<lparr>warned_applyBlendMode := True\<rparr>
                else w1)
             else w1)
      in setCache (\<lambda>c. c\<lparr>lastBlendMode := mode\<rparr>) w2)"

text \<open>\<open>RenderTarget::applyTransform\<close>, \<open>applyTexture\<close>, \<open>applyShader\<close>, \<open>applyCurrentView\<close>\<close>

definition applyTransform :: "Transform \<Rightarrow> rstate \<Rightarrow> rstate" where
  "applyTransform t w =
     (if t = Transform_Identity then call glLoadIdentity w else call (glLoadMatrixf t) w)"

definition applyTexture :: "Texture option \<Rightarrow> rstate \<Rightarrow> rstate" where
  "applyTexture tex w =
     setCache (\<lambda>c. c\<lparr>lastTextureId := (case tex of Some t \<Rightarrow> m_cacheId t | None \<Rightarrow> 0)\<rparr>)
       (call (Texture_bind tex) w)"

definition applyShader :: "ShaderRef option \<Rightarrow> rstate \<Rightarrow> rstate" where
  "applyShader s w = call (Shader_bind s) w"

definition viewportCall :: "platform \<Rightarrow> rstate \<Rightarrow> rt_call" where
  "viewportCall pf w =
     (let vp = getViewport pf (target w) (m_view (target w));
          top = int (snd (getSize (target w))) - (rect_top vp + rect_height vp)
      in glViewport (rect_left vp) top (rect_width vp) (rect_height vp))"

definition applyCurrentView :: "platform \<Rightarrow> rstate \<Rightarrow> rstate" where
  "applyCurrentView pf w =
     setCache (\<lambda>c. c\<lparr>viewChanged := False\<rparr>)
       (call (glMatrixMode GL_MODELVIEW)
          (call (glLoadMatrixf (viewTransform (m_view (target w))))
             (call (glMatrixMode GL_PROJECTION) (call (viewportCall pf w) w))))"

text \<open>\<open>RenderTarget::isSrgb\<close> (the base class's answer)\<close>

definition isSrgb :: "RenderTarget \<Rightarrow> bool" where
  "isSrgb rt = False"

definition calls :: "rt_call list \<Rightarrow> rstate \<Rightarrow> rstate" where
  "calls cs w = w\<lparr>commands := commands w @ cs\<rparr>"

definition attribCalls :: "(GLint \<Rightarrow> rt_call) \<Rightarrow> GLint list \<Rightarrow> rt_call list" where
  "attribCalls f locs = map f (filter (\<lambda>l. l \<ge> 0) locs)"

text \<open>\<open>RenderTarget::resetGLStates\<close>\<close>

definition resetGLStates :: "platform \<Rightarrow> Uint64 \<Rightarrow> rstate \<Rightarrow> rstate" where
  "resetGLStates pf contextId w =
     (let shaderAvailable = Shader_isAvailable pf;
          vertexBufferAvailable = VertexBuffer_isAvailable pf;
          w0 = (if SFML_SYSTEM_MACOS pf then snd (setActive False contextId w) else w);
          (active, w1) = ensureActive contextId w0
      in if active then
           (let w2 = call ensureExtensionsInit w1;
                w3 = (if GLEXT_multitexture pf then
                        (if SFML_OPENGL_ES pf then call glActiveTexture0 w2
                         else call glActiveTexture0 (call glClientActiveTexture0 w2))
                      else w2);
                w4 = calls [glDisable GL_CULL_FACE, glDisable GL_DEPTH_TEST, glEnable GL_BLEND] w3;
                w5 = (if SFML_OPENGL_ES pf then
                        calls (attribCalls glDisableVertexAttribArray
                                 [posAttrib (cache w4), colAttrib (cache w4), texAttrib (cache w4)]) w4
                      else
                        calls [glDisable GL_ALPHA_TEST, glDisable GL_LIGHTING, glEnable GL_TEXTURE_2D,
                               glMatrixMode GL_MODELVIEW, glLoadIdentity,
                               glEnableClientState GL_VERTEX_ARRAY, glEnableClientState GL_COLOR_ARRAY,
                               glEnableClientState GL_TEXTURE_COORD_ARRAY] w4);
                w6 = setCache (\<lambda>c. c\<lparr>glStatesSet := True\<rparr>) w5;
                w7 = applyTexture None (applyBlendMode pf (BlendAlpha pf) w6);
                w8 = (if shaderAvailable then applyShader None w7 else w7);
                w9 = (if vertexBufferAvailable then call (VertexBuffer_bind None) w8 else w8);
                w10 = setCache (\<lambda>c. c\<lparr>texCoordsArrayEnabled := True, useVertexCache := False\<rparr>) w9;
                w11 = setView (getView w10) w10
            in setCache (\<lambda>c. c\<lparr>enable := True\<rparr>) w11)
         else w1)"

text \<open>
  The shader an OpenGL ES build draws with: the caller's, or the built-in one with or without
  a texture.
\<close>

definition usedShaderOf :: "platform \<Rightarrow> RenderStates \<Rightarrow> ShaderRef" where
  "usedShaderOf pf states =
     (case shader states of
        Some s \<Rightarrow> s
      | None \<Rightarrow> (case texture states of None \<Rightarrow> getDefaultShader pf | Some t \<Rightarrow> getDefaultTexShader pf))"

text \<open>The texture matrix of the OpenGL ES path of \<open>setupDraw\<close>.\<close>

definition textureMatrix :: "platform \<Rightarrow> Texture \<Rightarrow> real list" where
  "textureMatrix pf t =
     (let m0 = float_div pf 1 (float_of_uint pf (fst (m_actualSize t)));
          m5 = float_div pf 1 (float_of_uint pf (snd (m_actualSize t)))
      in if m_pixelsFlipped t then
           [m0, 0, 0, 0,  0, - m5, 0, 0,  0, 0, 1, 0,
            0, float_div pf (float_of_uint pf (snd (m_size t))) (float_of_uint pf (snd (m_actualSize t))), 0, 1]
         else [m0, 0, 0, 0,  0, m5, 0, 0,  0, 0, 1, 0,  0, 0, 0, 1])"

definition textureUniforms :: "platform \<Rightarrow> ShaderRef \<Rightarrow> Texture \<Rightarrow> rstate \<Rightarrow> rstate" where
  "textureUniforms pf usedShader t w =
     (let w1 = call (Shader_setUniform usedShader ''sf_texture'' (Mat4 (textureMatrix pf t))) w
      in if fst (m_actualSize t) \<noteq> 0 \<and> snd (m_actualSize t) \<noteq> 0 then
           call (Shader_setUniform usedShader ''factor_npot''
                   (Vec2 (float_div pf (float_of_uint pf (fst (m_size t))) (float_of_uint pf (fst (m_actualSize t))))
                         (float_div pf (float_of_uint pf (snd (m_size t))) (float_of_uint pf (snd (m_actualSize t))))))
             w1
         else w1)"

text \<open>The end of the OpenGL ES path of \<open>setupDraw\<close>: bind the shader, and rewire the attributes
  when the program is not the one of the previous draw.\<close>

definition bindUsedShader :: "platform \<Rightarrow> ShaderRef \<Rightarrow> rstate \<Rightarrow> rstate" where
  "bindUsedShader pf usedShader w =
     (let w1 = applyShader (Some usedShader) w;
          h = nativeHandle usedShader
      in if programChanged (cache w1) \<noteq> h then
           (let w2 = calls [glGetAttribLocation h ''position'', glGetAttribLocation h ''color'',
                            glGetAttribLocation h ''texCoord'']
                       (setCache (\<lambda>c. c\<lparr>programChanged := h,
                                          posAttrib := attribLocationOf pf h ''position'',
                                          colAttrib := attribLocationOf pf h ''color'',
                                          texAttrib := attribLocationOf pf h ''texCoord''\<rparr>) w1)
            in calls (attribCalls glEnableVertexAttribArray
                        [posAttrib (cache w2), colAttrib (cache w2), texAttrib (cache w2)]) w2)
         else w1)"

text \<open>\<open>RenderTarget::setupDraw\<close>\<close>

definition setupDraw :: "platform \<Rightarrow> Uint64 \<Rightarrow> bool \<Rightarrow> RenderStates \<Rightarrow> rstate \<Rightarrow> rstate" where
  "setupDraw pf contextId useVertexCache' states w =
     (let w1 = (if \<not> enable (cache w) then
                  (if isSrgb (target w) then call (glEnable GL_FRAMEBUFFER_SRGB) w
                   else call (glDisable GL_FRAMEBUFFER_SRGB) w)
                else w);
          w2 = (if \<not> glStatesSet (cache w1) then resetGLStates pf contextId w1 else w1);
          usedShader = usedShaderOf pf states;
          w3 = (if useVertexCache' then
                  (if SFML_OPENGL_ES pf then
                     call (Shader_setUniform usedShader ''sf_modelview'' (Mat4 Transform_Identity)) w2
                   else if \<not> enable (cache w2) \<or> \<not> useVertexCache (cache w2) then call glLoadIdentity w2
                   else w2)
                else
                  (if SFML_OPENGL_ES pf then
                     call (Shader_setUniform usedShader ''sf_modelview'' (Mat4 (transform states))) w2
                   else applyTransform (transform states) w2));
          w4 = (if SFML_OPENGL_ES pf then
                  call (Shader_setUniform usedShader ''sf_projection''
                          (Mat4 (viewTransform (m_view (target w3)))))
                    (call (viewportCall pf w3) w3)
                else if \<not> enable (cache w3) \<or> viewChanged (cache w3) then applyCurrentView pf w3
                else w3);
          w5 = (if \<not> enable (cache w4) \<or> blendMode states \<noteq> lastBlendMode (cache w4)
                then applyBlendMode pf (blendMode states) w4 else w4);
          fbo = (case texture states of Some t \<Rightarrow> m_fboAttachment t | None \<Rightarrow> False);
          textureId = (case texture states of Some t \<Rightarrow> m_cacheId t | None \<Rightarrow> 0);
          rebind = (if \<not> enable (cache w5) \<or> fbo then True
                    else textureId \<noteq> lastTextureId (cache w5));
          w6 = (if rebind then applyTexture (texture states) w5 else w5);
          setTexture = (rebind \<and> texture states \<noteq> None)
      in if SFML_OPENGL_ES pf then
           (let w7 = (case texture states of
                        Some t \<Rightarrow>
                          if setTexture \<or> programChanged (cache w6) \<noteq> nativeHandle usedShader
                          then textureUniforms pf usedShader t w6 else w6
                      | None \<Rightarrow> w6)
            in bindUsedShader pf usedShader w7)
         else
           (case shader states of Some s \<Rightarrow> applyShader (Some s) w6 | None \<Rightarrow> w6))"

text \<open>\<open>RenderTarget::drawPrimitives\<close>\<close>

fun modes :: "PrimitiveType \<Rightarrow> gl_primitive" where
  "modes Points = GL_POINTS"
| "modes Lines = GL_LINES"
| "modes LineStrip = GL_LINE_STRIP"
| "modes Triangles = GL_TRIANGLES"
| "modes TriangleStrip = GL_TRIANGLE_STRIP"
| "modes TriangleFan = GL_TRIANGLE_FAN"
| "modes Quads = GL_QUADS"

definition drawPrimitives :: "PrimitiveType \<Rightarrow> nat \<Rightarrow> nat \<Rightarrow> rstate \<Rightarrow> rstate" where
  "drawPrimitives type firstVertex vertexCount w =
     call (glDrawArrays (modes type) firstVertex vertexCount) w"

text \<open>\<open>RenderTarget::cleanupDraw\<close>\<close>

definition cleanupDraw :: "platform \<Rightarrow> RenderStates \<Rightarrow> rstate \<Rightarrow> rstate" where
  "cleanupDraw pf states w =
     (let w1 = (if SFML_OPENGL_ES pf then applyShader None w
                else if shader states \<noteq> None then applyShader None w else w);
          w2 = (case texture states of
                  Some t \<Rightarrow> if m_fboAttachment t then applyTexture None w1 else w1
                | None \<Rightarrow> w1)
      in setCache (\<lambda>c. c\<lparr>enable := True\<rparr>) w2)"

text \<open>
  The loop of \<open>draw\<close> that pre-transforms the first \<open>vertexCount\<close> vertices into the vertex
  cache. (The caller's array holds at least \<open>vertexCount\<close> vertices; the cache holds
  \<open>VertexCacheSize\<close>.)
\<close>

definition preTransform :: "platform \<Rightarrow> Transform \<Rightarrow> Vertex list \<Rightarrow> nat \<Rightarrow> Vertex list \<Rightarrow> Vertex list" where
  "preTransform pf t vertices vertexCount vc =
     fold (\<lambda>i vc. vc[i := \<lparr>position = transformPoint pf t (position (vertices ! i)),
                           color = color (vertices ! i),
                           texCoords = texCoords (vertices ! i)\<rparr>])
          [0..<vertexCount] vc"

text \<open>The vertex pointers of \<open>draw\<close>, for the desktop build and for OpenGL ES.\<close>

definition desktopPointers :: "bool \<Rightarrow> bool \<Rightarrow> vertex_data \<Rightarrow> rstate \<Rightarrow> rstate" where
  "desktopPointers useVertexCache' enableTexCoordsArray data w =
     (let w1 = (if \<not> enable (cache w) \<or> enableTexCoordsArray \<noteq> texCoordsArrayEnabled (cache w) then
                  (if enableTexCoordsArray then call (glEnableClientState GL_TEXTURE_COORD_ARRAY) w
                   else call (glDisableClientState GL_TEXTURE_COORD_ARRAY) w)
                else w)
      in if \<not> enable (cache w1) \<or> \<not> useVertexCache' \<or> \<not> useVertexCache (cache w1) then
           calls ([glVertexPointer data 0, glColorPointer data 8]
                  @ (if enableTexCoordsArray then [glTexCoordPointer data 12] else [])) w1
         else if enableTexCoordsArray \<and> \<not> texCoordsArrayEnabled (cache w1) then
           call (glTexCoordPointer InternalVertexCache 12) w1
         else w1)"

definition esPointers :: "bool \<Rightarrow> vertex_data \<Rightarrow> rstate \<Rightarrow> rstate" where
  "esPointers enableTexCoordsArray data w =
     calls ((if posAttrib (cache w) \<ge> 0 then [glVertexAttribPointer (posAttrib (cache w)) data 0] else [])
            @ (if colAttrib (cache w) \<ge> 0 then [glVertexAttribPointer (colAttrib (cache w)) data 8] else [])
            @ (if enableTexCoordsArray \<and> texAttrib (cache w) \<ge> 0
               then [glVertexAttribPointer (texAttrib (cache w)) data 12] else [])) w"

text \<open>\<open>RenderTarget::draw(const Vertex*, std::size_t, PrimitiveType, const RenderStates&)\<close>:
  a null pointer is \<open>None\<close>.\<close>

definition draw ::
  "platform \<Rightarrow> Uint64 \<Rightarrow> Vertex list option \<Rightarrow> nat \<Rightarrow> PrimitiveType \<Rightarrow> RenderStates \<Rightarrow> rstate \<Rightarrow> rstate" where
  "draw pf contextId vertices vertexCount type states w =
     (case vertices of
        None \<Rightarrow> w
      | Some vs \<Rightarrow>
          if vertexCount = 0 then w
          else if SFML_OPENGL_ES pf \<and> type = Quads then err ErrQuadsUnsupported w
          else
            (let (active, w1) = ensureActive contextId w
             in if active then
                  (let useVertexCache' = (vertexCount \<le> VertexCacheSize pf);
                       w2 = (if useVertexCache' then
                               setCache (\<lambda>c. c\<lparr>vertexCache :=
                                   preTransform pf (transform states) vs vertexCount (vertexCache c)\<rparr>) w1
                             else w1);
                       w3 = setupDraw pf contextId useVertexCache' states w2;
                       enableTexCoordsArray = (texture states \<noteq> None \<or> shader states \<noteq> None);
                       data = (if useVertexCache' then InternalVertexCache else CallerVertices vs);
                       w4 = (if SFML_OPENGL_ES pf then esPointers enableTexCoordsArray data w3
                             else desktopPointers useVertexCache' enableTexCoordsArray data w3);
                       w5 = drawPrimitives type 0 vertexCount w4;
                       w6 = cleanupDraw pf states w5
                   in setCache (\<lambda>c. c\<lparr>useVertexCache := useVertexCache',
                                      texCoordsArrayEnabled := enableTexCoordsArray\<rparr>) w6)
                else w1))"

text \<open>\<open>RenderTarget::draw(const VertexBuffer&, std::size_t, std::size_t, const RenderStates&)\<close>\<close>

definition draw_VertexBuffer ::
  "platform \<Rightarrow> Uint64 \<Rightarrow> VertexBuffer \<Rightarrow> nat \<Rightarrow> nat \<Rightarrow> RenderStates \<Rightarrow> rstate \<Rightarrow> rstate" where
  "draw_VertexBuffer pf contextId vertexBuffer firstVertex vertexCount states w =
     (if \<not> VertexBuffer_isAvailable pf then err ErrVertexBufferUnavailable w
      else if firstVertex > vb_vertexCount vertexBuffer then w
      else
        (let vertexCount' = min vertexCount (vb_vertexCount vertexBuffer - firstVertex)
         in if vertexCount' = 0 \<or> vb_nativeHandle vertexBuffer = 0 then w
            else if SFML_OPENGL_ES pf \<and> vb_primitiveType vertexBuffer = Quads
            then err ErrQuadsUnsupported w
            else
              (let (active, w1) = ensureActive contextId w
               in if active then
                    (let w2 = setupDraw pf contextId False states w1;
                         w3 = call (VertexBuffer_bind (Some vertexBuffer)) w2;
                         w4 = (if SFML_OPENGL_ES pf then
                                 calls ((if (\<not> enable (cache w3) \<or> \<not> texCoordsArrayEnabled (cache w3))
                                            \<and> texAttrib (cache w3) \<ge> 0
                                         then [glEnableVertexAttribArray (texAttrib (cache w3))] else [])
                                        @ (if posAttrib (cache w3) \<ge> 0
                                           then [glVertexAttribPointer (posAttrib (cache w3)) BoundBuffer 0] else [])
                                        @ (if colAttrib (cache w3) \<ge> 0
                                           then [glVertexAttribPointer (colAttrib (cache w3)) BoundBuffer 8] else [])
                                        @ (if texAttrib (cache w3) \<ge> 0
                                           then [glVertexAttribPointer (texAttrib (cache w3)) BoundBuffer 12] else [])) w3
                               else
                                 calls ((if \<not> enable (cache w3) \<or> \<not> texCoordsArrayEnabled (cache w3)
                                         then [glEnableClientState GL_TEXTURE_COORD_ARRAY] else [])
                                        @ [glVertexPointer BoundBuffer 0, glColorPointer BoundBuffer 8,
                                           glTexCoordPointer BoundBuffer 12]) w3);
                         w5 = drawPrimitives (vb_primitiveType vertexBuffer) firstVertex vertexCount' w4;
                         w6 = call (VertexBuffer_bind None) w5;
                         w7 = cleanupDraw pf states w6
                     in setCache (\<lambda>c. c\<lparr>useVertexCache := False, texCoordsArrayEnabled := True\<rparr>) w7)
                  else w1)))"

subsection \<open>Draw requests\<close>

text \<open>
  A draw call with its arguments; \<open>performed\<close> says that the call passes the guards at the
  top of the function (nothing to draw, an unsupported primitive type or no vertex buffers)
  and so reaches \<open>setupDraw\<close>.
\<close>

datatype draw_request =
    DrawVertices "Vertex list option" nat PrimitiveType RenderStates
  | DrawBuffer VertexBuffer nat nat RenderStates

fun run_draw :: "platform \<Rightarrow> Uint64 \<Rightarrow> draw_request \<Rightarrow> rstate \<Rightarrow> rstate" where
  "run_draw pf contextId (DrawVertices vertices vertexCount type states) w =
     draw pf contextId vertices vertexCount type states w"
| "run_draw pf contextId (DrawBuffer vertexBuffer firstVertex vertexCount states) w =
     draw_VertexBuffer pf contextId vertexBuffer firstVertex vertexCount states w"

fun statesOf :: "draw_request \<Rightarrow> RenderStates" where
  "statesOf (DrawVertices vertices vertexCount type states) = states"
| "statesOf (DrawBuffer vertexBuffer firstVertex vertexCount states) = states"

fun performed :: "platform \<Rightarrow> draw_request \<Rightarrow> bool" where
  "performed pf (DrawVertices vertices vertexCount type states) =
     (vertices \<noteq> None \<and> vertexCount \<noteq> 0 \<and> \<not> (SFML_OPENGL_ES pf \<and> type = Quads))"
| "performed pf (DrawBuffer vertexBuffer firstVertex vertexCount states) =
     (VertexBuffer_isAvailable pf \<and> \<not> firstVertex > vb_vertexCount vertexBuffer
      \<and> min vertexCount (vb_vertexCount vertexBuffer - firstVertex) \<noteq> 0
      \<and> vb_nativeHandle vertexBuffer \<noteq> 0
      \<and> \<not> (SFML_OPENGL_ES pf \<and> vb_primitiveType vertexBuffer = Quads))"

text \<open>Projections of a trace and of a log.\<close>

fun is_blend_call :: "rt_call \<Rightarrow> bool" where
  "is_blend_call (glBlendFuncSeparate a b c d) = True"
| "is_blend_call (glBlendFunc a b) = True"
| "is_blend_call (glBlendEquationSeparate a b) = True"
| "is_blend_call (glBlendEquation a) = True"
| "is_blend_call c = False"

fun is_equation_call :: "rt_call \<Rightarrow> bool" where
  "is_equation_call (glBlendEquationSeparate a b) = True"
| "is_equation_call (glBlendEquation a) = True"
| "is_equation_call c = False"

fun is_draw_call :: "rt_call \<Rightarrow> bool" where
  "is_draw_call (glDrawArrays m a b) = True"
| "is_draw_call c = False"

definition blendCalls :: "rstate \<Rightarrow> rt_call list" where
  "blendCalls w = filter is_blend_call (commands w)"

definition equationCalls :: "rstate \<Rightarrow> rt_call list" where
  "equationCalls w = filter is_equation_call (commands w)"

definition drawCalls :: "rstate \<Rightarrow> rt_call list" where
  "drawCalls w = filter is_draw_call (commands w)"

definition issued :: "rstate \<Rightarrow> rstate \<Rightarrow> rt_call list" where
  "issued w w' = drop (length (commands w)) (commands w')"

text \<open>The \<open>float\<close> value \<open>getViewport\<close> converts for one coordinate: \<open>0.5f + extent * c\<close>.\<close>

definition viewportValue :: "platform \<Rightarrow> nat \<Rightarrow> real \<Rightarrow> real" where
  "viewportValue pf extent c = float_add pf 0.5 (float_mul pf (float_of_uint pf extent) c)"

subsection \<open>Concrete inputs for the render target\<close>

definition alpha_blend :: BlendMode where
  "alpha_blend =
     \<lparr>colorSrcFactor = FactorSrcAlpha, colorDstFactor = FactorOneMinusSrcAlpha,
      colorEquation = EquationAdd,
      alphaSrcFactor = FactorOne, alphaDstFactor = FactorOneMinusSrcAlpha,
      alphaEquation = EquationAdd\<rparr>"

definition desktop_platform :: platform where
  "desktop_platform =
     \<lparr>SFML_OPENGL_ES = False, SFML_SYSTEM_MACOS = False, GLEXT_multitexture = True,
      GLEXT_blend_func_separate = True, GLEXT_blend_minmax = False, GLEXT_blend_subtract = False,
      GLEXT_blend_equation_separate = False, Shader_isAvailable = True,
      VertexBuffer_isAvailable = True, VertexCacheSize = 4, BlendAlpha = alpha_blend,
      transformPoint = (\<lambda>m (x, y). (m ! 0 * x + m ! 4 * y + m ! 12, m ! 1 * x + m ! 5 * y + m ! 13)),
      getDefaultShader = \<lparr>shaderObject = 1, nativeHandle = 1\<rparr>,
      getDefaultTexShader = \<lparr>shaderObject = 2, nativeHandle = 2\<rparr>,
      attribLocationOf = (\<lambda>h n. if n = ''position'' then 0 else if n = ''color'' then 1
                                  else if n = ''texCoord'' then 2 else -1),
      float_add = (+), float_mul = (*), float_div = (/), float_of_uint = real\<rparr>"

definition es_platform :: platform where
  "es_platform = desktop_platform\<lparr>SFML_OPENGL_ES := True, GLEXT_blend_subtract := True,
                                   GLEXT_blend_equation_separate := True\<rparr>"

definition full_view :: View where
  "full_view = \<lparr>viewport = \<lparr>rect_left = 0, rect_top = 0, rect_width = 1, rect_height = 1\<rparr>,
                viewTransform = Transform_Identity\<rparr>"

definition shifted_view :: View where
  "shifted_view = \<lparr>viewport = \<lparr>rect_left = - (1 / 4), rect_top = 1 / 8, rect_width = 1, rect_height = 1 / 2\<rparr>,
                   viewTransform = Transform_Identity\<rparr>"

definition fresh_cache :: StatesCache where
  "fresh_cache =
     \<lparr>enable = False, glStatesSet = False, viewChanged = False, lastBlendMode = alpha_blend,
      lastTextureId = 0, texCoordsArrayEnabled = False, useVertexCache = False,
      vertexCache = replicate 4 \<lparr>position = (0, 0), color = (0, 0, 0, 0), texCoords = (0, 0)\<rparr>,
      programChanged = 0, posAttrib = -1, colAttrib = -1, texAttrib = -1\<rparr>"

definition target_A :: RenderTarget where
  "target_A = \<lparr>m_defaultView = full_view, m_view = full_view,
               m_cache = fresh_cache\<lparr>enable := True, glStatesSet := True\<rparr>,
               m_id = 1, getSize = (4, 4)\<rparr>"


definition world_A_active :: rstate where
  "world_A_active =
     \<lparr>target = target_A, contextRenderTargetMap = [7 \<mapsto> 1],
      warned_equationToGlConstant = False, warned_applyBlendMode = False,
      commands = [], errors = []\<rparr>"

subsection \<open>Projections and blocks used in the proofs\<close>

text \<open>The calls the properties below follow through a draw: blend-state changes and draw calls.\<close>

definition tracked :: "rt_call \<Rightarrow> bool" where
  "tracked c \<longleftrightarrow> is_blend_call c \<or> is_draw_call c"

definition trackedCalls :: "rstate \<Rightarrow> rt_call list" where
  "trackedCalls w = filter tracked (commands w)"

text \<open>The constant \<open>equationToGlConstant\<close> returns, and the blend commands \<open>applyBlendMode\<close> issues:
  both depend on the capability flags and the mode only.\<close>

definition equationConstant :: "platform \<Rightarrow> Equation \<Rightarrow> gl_blend_equation" where
  "equationConstant pf e = (case equationSwitch pf e of Some c \<Rightarrow> c | None \<Rightarrow> GL_FUNC_ADD)"

definition blendCommands :: "platform \<Rightarrow> BlendMode \<Rightarrow> rt_call list" where
  "blendCommands pf mode =
     [if GLEXT_blend_func_separate pf then
        glBlendFuncSeparate
          (factorToGlConstant (colorSrcFactor mode)) (factorToGlConstant (colorDstFactor mode))
          (factorToGlConstant (alphaSrcFactor mode)) (factorToGlConstant (alphaDstFactor mode))
      else glBlendFunc (factorToGlConstant (colorSrcFactor mode))
                       (factorToGlConstant (colorDstFactor mode))]
     @ (if GLEXT_blend_minmax pf \<or> GLEXT_blend_subtract pf then
          [if GLEXT_blend_equation_separate pf then
             glBlendEquationSeparate (equationConstant pf (colorEquation mode))
                                     (equationConstant pf (alphaEquation mode))
           else glBlendEquation (equationConstant pf (colorEquation mode))]
        else [])"

text \<open>How often each of the two one-time warnings stands in the log.\<close>

definition unavailableWarnings :: "rstate \<Rightarrow> nat" where
  "unavailableWarnings w = count_list (errors w) WarnBlendEquationUnavailable"

definition fallbackWarnings :: "rstate \<Rightarrow> nat" where
  "fallbackWarnings w = count_list (errors w) WarnEquationFallback"

text \<open>
  A step of the log: a warning is added exactly when its static flag goes from false to true,
  and a flag that is set stays set.
\<close>

definition logStep :: "rstate \<Rightarrow> rstate \<Rightarrow> bool" where
  "logStep w w' \<longleftrightarrow>
     (warned_applyBlendMode w \<longrightarrow> warned_applyBlendMode w')
     \<and> unavailableWarnings w' + of_bool (warned_applyBlendMode w)
         = unavailableWarnings w + of_bool (warned_applyBlendMode w')
     \<and> (warned_equationToGlConstant w \<longrightarrow> warned_equationToGlConstant w')
     \<and> fallbackWarnings w' + of_bool (warned_equationToGlConstant w)
         = fallbackWarnings w + of_bool (warned_equationToGlConstant w')"

text \<open>The trace only grows.\<close>

definition extends :: "rstate \<Rightarrow> rstate \<Rightarrow> bool" where
  "extends w w' \<longleftrightarrow> (\<exists>r. commands w' = commands w @ r)"

text \<open>The parts of the state the blend, draw and warning properties depend on.\<close>

definition summary ::
  "rstate \<Rightarrow> bool \<times> bool \<times> BlendMode \<times> Vertex list \<times> (Uint64 \<rightharpoonup> Uint64) \<times> Uint64
     \<times> rt_call list \<times> rt_err list \<times> bool \<times> bool" where
  "summary w =
     (enable (cache w), glStatesSet (cache w), lastBlendMode (cache w), vertexCache (cache w),
      contextRenderTargetMap w, m_id (target w), trackedCalls w, errors w,
      warned_applyBlendMode w, warned_equationToGlConstant w)"

text \<open>
  The blocks of \<open>resetGLStates\<close>, \<open>setupDraw\<close> and the two \<open>draw\<close> overloads, one
  definition each; the lemmas \<open>resetGLStates_stages\<close>, \<open>setupDraw_stages\<close>, \<open>draw_stages\<close>
  and \<open>draw_VertexBuffer_stages\<close> show that each function is the composition of its blocks.
\<close>

definition resetMiddle :: "platform \<Rightarrow> rstate \<Rightarrow> rstate" where
  "resetMiddle pf w1 =
     (let w2 = call ensureExtensionsInit w1;
          w3 = (if GLEXT_multitexture pf then
                  (if SFML_OPENGL_ES pf then call glActiveTexture0 w2
                   else call glActiveTexture0 (call glClientActiveTexture0 w2))
                else w2);
          w4 = calls [glDisable GL_CULL_FACE, glDisable GL_DEPTH_TEST, glEnable GL_BLEND] w3
      in (if SFML_OPENGL_ES pf then
            calls (attribCalls glDisableVertexAttribArray
                     [posAttrib (cache w4), colAttrib (cache w4), texAttrib (cache w4)]) w4
          else
            calls [glDisable GL_ALPHA_TEST, glDisable GL_LIGHTING, glEnable GL_TEXTURE_2D,
                   glMatrixMode GL_MODELVIEW, glLoadIdentity,
                   glEnableClientState GL_VERTEX_ARRAY, glEnableClientState GL_COLOR_ARRAY,
                   glEnableClientState GL_TEXTURE_COORD_ARRAY] w4))"

definition resetEnd :: "platform \<Rightarrow> rstate \<Rightarrow> rstate" where
  "resetEnd pf w7 =
     (let w8 = (if Shader_isAvailable pf then applyShader None w7 else w7);
          w9 = (if VertexBuffer_isAvailable pf then call (VertexBuffer_bind None) w8 else w8);
          w10 = setCache (\<lambda>c. c\<lparr>texCoordsArrayEnabled := True, useVertexCache := False\<rparr>) w9;
          w11 = setView (getView w10) w10
      in setCache (\<lambda>c. c\<lparr>enable := True\<rparr>) w11)"

text \<open>
  The call that applies \<open>states.transform\<close> as GPU state: \<open>applyTransform\<close> on the desktop
  build, the \<open>sf_modelview\<close> uniform of the shader in use on OpenGL ES.
\<close>

definition gpuTransformCall :: "platform \<Rightarrow> RenderStates \<Rightarrow> rt_call" where
  "gpuTransformCall pf states =
     (if SFML_OPENGL_ES pf then
        Shader_setUniform (usedShaderOf pf states) ''sf_modelview'' (Mat4 (transform states))
      else if transform states = Transform_Identity then glLoadIdentity
      else glLoadMatrixf (transform states))"

definition srgbStep :: "rstate \<Rightarrow> rstate" where
  "srgbStep w =
     (if \<not> enable (cache w) then
        (if isSrgb (target w) then call (glEnable GL_FRAMEBUFFER_SRGB) w
         else call (glDisable GL_FRAMEBUFFER_SRGB) w)
      else w)"

definition resetStep :: "platform \<Rightarrow> Uint64 \<Rightarrow> rstate \<Rightarrow> rstate" where
  "resetStep pf C w = (if \<not> glStatesSet (cache w) then resetGLStates pf C w else w)"

definition transformStep :: "platform \<Rightarrow> bool \<Rightarrow> RenderStates \<Rightarrow> rstate \<Rightarrow> rstate" where
  "transformStep pf u states w =
     (if u then
        (if SFML_OPENGL_ES pf then
           call (Shader_setUniform (usedShaderOf pf states) ''sf_modelview'' (Mat4 Transform_Identity)) w
         else if \<not> enable (cache w) \<or> \<not> useVertexCache (cache w) then call glLoadIdentity w
         else w)
      else
        (if SFML_OPENGL_ES pf then
           call (Shader_setUniform (usedShaderOf pf states) ''sf_modelview'' (Mat4 (transform states))) w
         else applyTransform (transform states) w))"

definition viewStep :: "platform \<Rightarrow> RenderStates \<Rightarrow> rstate \<Rightarrow> rstate" where
  "viewStep pf states w =
     (if SFML_OPENGL_ES pf then
        call (Shader_setUniform (usedShaderOf pf states) ''sf_projection''
                (Mat4 (viewTransform (m_view (target w)))))
          (call (viewportCall pf w) w)
      else if \<not> enable (cache w) \<or> viewChanged (cache w) then applyCurrentView pf w
      else w)"

definition blendStep :: "platform \<Rightarrow> RenderStates \<Rightarrow> rstate \<Rightarrow> rstate" where
  "blendStep pf states w =
     (if \<not> enable (cache w) \<or> blendMode states \<noteq> lastBlendMode (cache w)
      then applyBlendMode pf (blendMode states) w else w)"

definition setupTail :: "platform \<Rightarrow> RenderStates \<Rightarrow> rstate \<Rightarrow> rstate" where
  "setupTail pf states w5 =
     (let usedShader = usedShaderOf pf states;
          fbo = (case texture states of Some t \<Rightarrow> m_fboAttachment t | None \<Rightarrow> False);
          textureId = (case texture states of Some t \<Rightarrow> m_cacheId t | None \<Rightarrow> 0);
          rebind = (if \<not> enable (cache w5) \<or> fbo then True
                    else textureId \<noteq> lastTextureId (cache w5));
          w6 = (if rebind then applyTexture (texture states) w5 else w5);
          setTexture = (rebind \<and> texture states \<noteq> None)
      in if SFML_OPENGL_ES pf then
           (let w7 = (case texture states of
                        Some t \<Rightarrow>
                          if setTexture \<or> programChanged (cache w6) \<noteq> nativeHandle usedShader
                          then textureUniforms pf usedShader t w6 else w6
                      | None \<Rightarrow> w6)
            in bindUsedShader pf usedShader w7)
         else
           (case shader states of Some s \<Rightarrow> applyShader (Some s) w6 | None \<Rightarrow> w6))"

definition preStep :: "platform \<Rightarrow> RenderStates \<Rightarrow> Vertex list \<Rightarrow> nat \<Rightarrow> rstate \<Rightarrow> rstate" where
  "preStep pf states vs n w =
     (if n \<le> VertexCacheSize pf then
        setCache (\<lambda>c. c\<lparr>vertexCache := preTransform pf (transform states) vs n (vertexCache c)\<rparr>) w
      else w)"

definition pointerStep :: "platform \<Rightarrow> RenderStates \<Rightarrow> Vertex list \<Rightarrow> nat \<Rightarrow> rstate \<Rightarrow> rstate" where
  "pointerStep pf states vs n w =
     (if SFML_OPENGL_ES pf then
        esPointers (texture states \<noteq> None \<or> shader states \<noteq> None)
          (if n \<le> VertexCacheSize pf then InternalVertexCache else CallerVertices vs) w
      else
        desktopPointers (n \<le> VertexCacheSize pf) (texture states \<noteq> None \<or> shader states \<noteq> None)
          (if n \<le> VertexCacheSize pf then InternalVertexCache else CallerVertices vs) w)"

definition bufferPointerStep :: "platform \<Rightarrow> rstate \<Rightarrow> rstate" where
  "bufferPointerStep pf w3 =
     (if SFML_OPENGL_ES pf then
        calls ((if (\<not> enable (cache w3) \<or> \<not> texCoordsArrayEnabled (cache w3))
                   \<and> texAttrib (cache w3) \<ge> 0
                then [glEnableVertexAttribArray (texAttrib (cache w3))] else [])
               @ (if posAttrib (cache w3) \<ge> 0
                  then [glVertexAttribPointer (posAttrib (cache w3)) BoundBuffer 0] else [])
               @ (if colAttrib (cache w3) \<ge> 0
                  then [glVertexAttribPointer (colAttrib (cache w3)) BoundBuffer 8] else [])
               @ (if texAttrib (cache w3) \<ge> 0
                  then [glVertexAttribPointer (texAttrib (cache w3)) BoundBuffer 12] else [])) w3
      else
        calls ((if \<not> enable (cache w3) \<or> \<not> texCoordsArrayEnabled (cache w3)
                then [glEnableClientState GL_TEXTURE_COORD_ARRAY] else [])
               @ [glVertexPointer BoundBuffer 0, glColorPointer BoundBuffer 8,
                  glTexCoordPointer BoundBuffer 12]) w3)"

text \<open>The \<open>glDrawArrays\<close> call of a draw request.\<close>

fun drawCallOf :: "draw_request \<Rightarrow> rt_call" where
  "drawCallOf (DrawVertices vertices vertexCount type states) =
     glDrawArrays (modes type) 0 vertexCount"
| "drawCallOf (DrawBuffer vertexBuffer firstVertex vertexCount states) =
     glDrawArrays (modes (vb_primitiveType vertexBuffer)) firstVertex
       (min vertexCount (vb_vertexCount vertexBuffer - firstVertex))"

text \<open>
  What a process does with render targets, in any order: draw on the current target in some
  context, or go on with another target object.
\<close>

datatype process_step = Draw Uint64 draw_request | SwitchTarget RenderTarget

fun run_step :: "platform \<Rightarrow> process_step \<Rightarrow> rstate \<Rightarrow> rstate" where
  "run_step pf (Draw contextId r) w = run_draw pf contextId r w"
| "run_step pf (SwitchTarget rt) w = w\<lparr>target := rt\<rparr>"

fun run_steps :: "platform \<Rightarrow> process_step list \<Rightarrow> rstate \<Rightarrow> rstate" where
  "run_steps pf [] w = w"
| "run_steps pf (x # xs) w = run_steps pf xs (run_step pf x w)"





subsection \<open>Concrete draws\<close>

definition plain_states :: RenderStates where
  "plain_states =
     \<lparr>blendMode = alpha_blend,
      transform = [1, 0, 0, 0,  0, 1, 0, 0,  0, 0, 1, 0,  10, 20, 0, 1],
      texture = None, shader = None\<rparr>"

definition subtract_states :: RenderStates where
  "subtract_states = plain_states\<lparr>blendMode := alpha_blend\<lparr>colorEquation := EquationSubtract\<rparr>\<rparr>"

definition one_vertex :: "Vertex list" where
  "one_vertex = [\<lparr>position = (1, 2), color = (255, 255, 255, 255), texCoords = (0, 0)\<rparr>]"

definition five_vertices :: "Vertex list" where
  "five_vertices = replicate 5 \<lparr>position = (1, 2), color = (255, 255, 255, 255), texCoords = (0, 0)\<rparr>"

definition plain_draw :: draw_request where
  "plain_draw = DrawVertices (Some one_vertex) 1 Points plain_states"

definition subtract_draw :: draw_request where
  "subtract_draw = DrawVertices (Some one_vertex) 1 Points subtract_states"



section \<open>Properties of the shader program manager\<close>

lemma emit_simps [simp]:
  "self (emit c w) = self w"
  "boundProgram (emit c w) = boundProgram w"
  "glCalls (emit c w) = glCalls w @ [c]"
  "errLog (emit c w) = errLog w"
  by (simp_all add: emit_def)

lemma logErr_simps [simp]:
  "self (logErr e w) = self w"
  "boundProgram (logErr e w) = boundProgram w"
  "glCalls (logErr e w) = glCalls w"
  "errLog (logErr e w) = errLog w @ [e]"
  by (simp_all add: logErr_def)

lemma useProgram_simps [simp]:
  "self (useProgram p w) = self w"
  "boundProgram (useProgram p w) = p"
  "glCalls (useProgram p w) = glCalls w @ [glUseProgramObject p]"
  "errLog (useProgram p w) = errLog w"
  by (simp_all add: useProgram_def)

lemma gul_cached:
  "m_uniforms (self w) n = Some l \<Longrightarrow> getUniformLocation bk n w = (l, w)"
  by (simp add: getUniformLocation_def)

lemma keeps_refl: "m_uniforms (self w) n = Some l \<Longrightarrow> keeps n l w w"
  by (simp add: keeps_def)

lemma keeps_emit:
  "keeps n l w w1 \<Longrightarrow> (\<And>p. c \<noteq> glGetUniformLocation p n) \<Longrightarrow> keeps n l w (emit c w1)"
  by (simp add: keeps_def locationQueries_def)

lemma keeps_useProgram:
  "keeps n l w w1 \<Longrightarrow> keeps n l w (useProgram p w1)"
  by (simp add: keeps_def locationQueries_def)

lemma keeps_gul:
  "keeps n l w w1 \<Longrightarrow> keeps n l w (snd (getUniformLocation bk n' w1))"
  by (cases "n' = n")
     (auto simp: keeps_def getUniformLocation_def Let_def locationQueries_def notFoundLines_def
           split: option.splits)

lemma keeps_ctor:
  "keeps n l w w1 \<Longrightarrow> keeps n l w (snd (UniformBinder_ctor bk n' w1))"
  by (auto simp: UniformBinder_ctor_def Let_def split_beta
           intro!: keeps_gul keeps_useProgram keeps_emit)

lemma keeps_dtor:
  "keeps n l w w1 \<Longrightarrow> keeps n l w (UniformBinder_dtor b w1)"
  by (auto simp: UniformBinder_dtor_def Let_def intro!: keeps_useProgram keeps_emit)

lemma keeps_withBinder:
  "keeps n l w w1 \<Longrightarrow> keeps n l w (withBinder bk n' u w1)"
  by (auto simp: withBinder_def Let_def split_beta intro!: keeps_dtor keeps_emit keeps_ctor)

lemma keeps_self_update:
  "keeps n l w w1 \<Longrightarrow> keeps n l w (w1\<lparr>self := (self w1)\<lparr>m_textures := t\<rparr>\<rparr>)"
  "keeps n l w w1 \<Longrightarrow> keeps n l w (w1\<lparr>self := (self w1)\<lparr>m_currentTexture := c\<rparr>\<rparr>)"
  by (simp_all add: keeps_def)

lemma keeps_logErr:
  "keeps n l w w1 \<Longrightarrow> e \<noteq> ErrUniformNotFound n \<Longrightarrow> keeps n l w (logErr e w1)"
  by (simp add: keeps_def notFoundLines_def)

lemma keeps_setUniform_Texture:
  "keeps n l w w1 \<Longrightarrow> keeps n l w (setUniform_Texture bk n' t w1)"
  by (auto simp: setUniform_Texture_def Let_def split_beta split: option.splits
           intro!: keeps_self_update keeps_emit keeps_gul keeps_logErr)

lemma keeps_setUniform_CurrentTexture:
  "keeps n l w w1 \<Longrightarrow> keeps n l w (setUniform_CurrentTexture bk n' w1)"
  by (auto simp: setUniform_CurrentTexture_def Let_def split_beta
           intro!: keeps_self_update keeps_emit keeps_gul)

lemma keeps_setUniform:
  "keeps n l w w1 \<Longrightarrow> keeps n l w (setUniform bk n' v w1)"
  by (cases v) (simp_all add: keeps_withBinder keeps_setUniform_Texture keeps_setUniform_CurrentTexture)

lemma keeps_setUniformArray:
  "keeps n l w w1 \<Longrightarrow> keeps n l w (setUniformArray bk n' a w1)"
  by (cases a) (simp_all add: keeps_withBinder)

lemma keeps_setParameter:
  "keeps n l w w1 \<Longrightarrow> keeps n l w (setParameter bk n' v w1)"
  by (cases v) (simp_all add: keeps_setUniform del: setUniform.simps)

lemma keeps_run_op:
  "keeps n l w w1 \<Longrightarrow> keeps n l w (run_op bk c w1)"
  by (cases c) (simp_all add: keeps_setUniform keeps_setUniformArray keeps_setParameter)

lemma keeps_run_ops:
  "keeps n l w w1 \<Longrightarrow> keeps n l w (run_ops bk cs w1)"
  by (induction cs arbitrary: w1) (simp_all add: keeps_run_op)

lemma compile_clears_uniforms:
  "shaderAvailable bk \<Longrightarrow> g = None \<or> geometryAvailable bk \<Longrightarrow>
   m_uniforms (self (snd (compile bk v g f w))) = Map.empty"
  by (auto simp: compile_def Let_def split_beta compileOptional_def compileStage_def
        linkProgram_def resetShader_def split: option.splits)

text \<open>
  C5. The first lookup of a name on a shader queries the backend once, stores the answer
  (also -1) and logs the missing name once; after it, whatever uniform operations follow, a
  lookup of that name returns the stored answer and changes nothing (no query, no log line),
  and the number of queries and log lines for the name stays what it was. A compile that
  passes the capability checks leaves the cache empty.
\<close>

theorem uniform_location_memoized:
  assumes "m_uniforms (self w) name = None"
  shows "(let (l, w1) = getUniformLocation bk name w in
            l = uniformLocationOf bk (m_shaderProgram (self w)) name
          \<and> m_uniforms (self w1) name = Some l
          \<and> locationQueries name (glCalls w1) = locationQueries name (glCalls w) + 1
          \<and> notFoundLines name (errLog w1) =
              notFoundLines name (errLog w) + (if l = -1 then 1 else 0)
          \<and> (\<forall>ops. let w2 = run_ops bk ops w1 in
                 getUniformLocation bk name w2 = (l, w2)
               \<and> locationQueries name (glCalls w2) = locationQueries name (glCalls w1)
               \<and> notFoundLines name (errLog w2) = notFoundLines name (errLog w1)
               \<and> (\<forall>v g f. shaderAvailable bk \<and> (g = None \<or> geometryAvailable bk) \<longrightarrow>
                     m_uniforms (self (snd (compile bk v g f w2))) = Map.empty)))"
proof -
  obtain l w1 where g: "getUniformLocation bk name w = (l, w1)"
    by (cases "getUniformLocation bk name w")
  from assms g have l: "l = uniformLocationOf bk (m_shaderProgram (self w)) name"
    and c: "m_uniforms (self w1) name = Some l"
    and q: "locationQueries name (glCalls w1) = locationQueries name (glCalls w) + 1"
    and e: "notFoundLines name (errLog w1) =
              notFoundLines name (errLog w) + (if l = -1 then 1 else 0)"
    by (auto simp: getUniformLocation_def Let_def locationQueries_def notFoundLines_def
             split: if_splits)
  have k: "keeps name l w1 (run_ops bk ops w1)" for ops
    by (rule keeps_run_ops) (rule keeps_refl[OF c])
  have after: "getUniformLocation bk name (run_ops bk ops w1) = (l, run_ops bk ops w1)
      \<and> locationQueries name (glCalls (run_ops bk ops w1)) = locationQueries name (glCalls w1)
      \<and> notFoundLines name (errLog (run_ops bk ops w1)) = notFoundLines name (errLog w1)" for ops
    using k[of ops] by (simp add: keeps_def gul_cached)
  show ?thesis
    using g l c q e after compile_clears_uniforms by (simp add: Let_def)
qed


theorem uniform_location_memoized_witness:
  "m_uniforms (self example_shader) ''missing'' = None
   \<and> (let (l, w1) = getUniformLocation example_backend ''missing'' example_shader;
           w2 = run_ops example_backend [SetUniform ''missing'' (U_float 1)] w1
       in l = -1 \<and> locationQueries ''missing'' (glCalls w1) = 1
          \<and> notFoundLines ''missing'' (errLog w1) = 1
          \<and> getUniformLocation example_backend ''missing'' w2 = (-1, w2)
          \<and> locationQueries ''missing'' (glCalls w2) = 1
          \<and> notFoundLines ''missing'' (errLog w2) = 1)"
proof -
  define W1 where "W1 = snd (getUniformLocation example_backend ''missing'' example_shader)"
  have h: "m_uniforms (self example_shader) ''missing'' = None"
    by (simp add: example_shader_def)
  have v: "getUniformLocation example_backend ''missing'' example_shader = (-1, W1)"
    by (simp add: W1_def getUniformLocation_def example_shader_def example_backend_def Let_def)
  have q: "locationQueries ''missing'' (glCalls example_shader) = 0"
    "notFoundLines ''missing'' (errLog example_shader) = 0"
    by (simp_all add: example_shader_def locationQueries_def notFoundLines_def)
  from uniform_location_memoized [OF h, of example_backend]
  have first: "locationQueries ''missing'' (glCalls W1) = 1"
      "notFoundLines ''missing'' (errLog W1) = 1"
    and later: "\<forall>ops. getUniformLocation example_backend ''missing'' (run_ops example_backend ops W1)
                    = (-1, run_ops example_backend ops W1)
        \<and> locationQueries ''missing'' (glCalls (run_ops example_backend ops W1))
            = locationQueries ''missing'' (glCalls W1)
        \<and> notFoundLines ''missing'' (errLog (run_ops example_backend ops W1))
            = notFoundLines ''missing'' (errLog W1)"
    by (simp_all add: v q Let_def)
  from spec [OF later, of "[SetUniform ''missing'' (U_float 1)]"] first h
  show ?thesis
    by (simp add: v Let_def del: run_ops.simps)
qed

lemma ctor_no_program:
  "m_shaderProgram (self w) = 0 \<Longrightarrow>
   UniformBinder_ctor bk n w =
     (\<lparr>savedProgram = 0, currentProgram = 0, location = -1\<rparr>, emit TransientContextLock_acquire w)"
  by (simp add: UniformBinder_ctor_def Let_def)

lemma withBinder_no_program:
  "m_shaderProgram (self w) = 0 \<Longrightarrow>
   withBinder bk n u w = emit TransientContextLock_release (emit TransientContextLock_acquire w)"
  by (simp add: withBinder_def ctor_no_program UniformBinder_dtor_def Let_def)

lemma setUniform_no_program:
  "m_shaderProgram (self w) = 0 \<Longrightarrow>
   setUniform bk n v w = w \<or>
   setUniform bk n v w = emit TransientContextLock_release (emit TransientContextLock_acquire w)"
  by (cases v)
     (simp_all add: withBinder_no_program setUniform_Texture_def setUniform_CurrentTexture_def)

lemma run_op_no_program:
  assumes z: "m_shaderProgram (self w) = 0"
  shows "run_op bk c w = w \<or>
   run_op bk c w = emit TransientContextLock_release (emit TransientContextLock_acquire w)"
proof (cases c)
  case (SetUniform n v)
  then show ?thesis using setUniform_no_program[OF z, of bk n v] by simp
next
  case (SetUniformArray n a)
  then show ?thesis using z by (cases a) (simp_all add: withBinder_no_program)
next
  case (SetParameter n v)
  show ?thesis using SetParameter setUniform_no_program[OF z, of bk n]
    by (cases v) (simp_all del: setUniform.simps)
qed

text \<open>
  C9. On a shader whose program handle is 0, every uniform-setting operation (each overload of
  setUniform, setUniformArray and setParameter) leaves the shader object, the bound program and
  the log as they were, and calls nothing of the graphics API: the trace is unchanged, or grows
  by the binder's context lock being taken and released.
\<close>

theorem no_program_no_effect:
  assumes "m_shaderProgram (self w) = 0"
  shows "(let w' = run_op bk c w in
            self w' = self w \<and> boundProgram w' = boundProgram w \<and> errLog w' = errLog w
          \<and> (glCalls w' = glCalls w
              \<or> glCalls w' = glCalls w @ [TransientContextLock_acquire, TransientContextLock_release]))"
  using run_op_no_program[OF assms, of bk c] by (auto simp: Let_def)


theorem no_program_no_effect_witness:
  "m_shaderProgram (self unlinked_shader) = 0
   \<and> (let w' = run_op example_backend (SetUniform ''color'' (U_float 1)) unlinked_shader in
          self w' = self unlinked_shader \<and> boundProgram w' = 0 \<and> errLog w' = []
        \<and> glCalls w' = [TransientContextLock_acquire, TransientContextLock_release])"
proof -
  have h: "m_shaderProgram (self unlinked_shader) = 0"
    by (simp add: unlinked_shader_def Shader_new_def)
  have t: "glCalls (run_op example_backend (SetUniform ''color'' (U_float 1)) unlinked_shader)
             \<noteq> glCalls unlinked_shader"
    by (simp add: withBinder_no_program [OF h])
  from no_program_no_effect [OF h, of example_backend "SetUniform ''color'' (U_float 1)"] t h
  show ?thesis
    by (simp add: Let_def unlinked_shader_def del: run_op.simps)
qed

lemma setUniform_Texture_outcome:
  assumes "m_shaderProgram (self w) \<noteq> 0"
    and "resolvedLocation bk w name = loc" and "loc \<noteq> -1"
  shows "self (setUniform_Texture bk name t w) =
           (self (snd (getUniformLocation bk name w)))
             \<lparr>m_textures :=
                (if m_textures (self w) loc = None
                    \<and> getMaxTextureUnits bk \<le> card (dom (m_textures (self w))) + 1
                 then m_textures (self w) else (m_textures (self w))(loc \<mapsto> t))\<rparr>"
    and "errLog (setUniform_Texture bk name t w) =
           (if m_textures (self w) loc = None
               \<and> getMaxTextureUnits bk \<le> card (dom (m_textures (self w))) + 1
            then errLog w @ [ErrTextureUnitsUsed name] else errLog w)"
  using assms
  by (auto simp: setUniform_Texture_def resolvedLocation_def getUniformLocation_def Let_def
           split: option.splits)

lemma resolvedLocation_gul:
  "resolvedLocation bk (snd (getUniformLocation bk n w)) n' = resolvedLocation bk w n'"
  by (auto simp: resolvedLocation_def getUniformLocation_def Let_def split: option.splits)

lemma resolvedLocation_cong:
  "m_uniforms (self w') = m_uniforms (self w) \<Longrightarrow> m_shaderProgram (self w') = m_shaderProgram (self w)
   \<Longrightarrow> resolvedLocation bk w' n = resolvedLocation bk w n"
  by (auto simp: resolvedLocation_def getUniformLocation_def Let_def split: option.splits)

lemma program_gul: "m_shaderProgram (self (snd (getUniformLocation bk n w))) = m_shaderProgram (self w)"
  by (auto simp: getUniformLocation_def Let_def split: option.splits)

lemma textures_gul: "m_textures (self (snd (getUniformLocation bk n w))) = m_textures (self w)"
  by (auto simp: getUniformLocation_def Let_def split: option.splits)

lemma resolvedLocation_setUniform_Texture:
  assumes "m_shaderProgram (self w) \<noteq> 0" and "resolvedLocation bk w name \<noteq> -1"
  shows "resolvedLocation bk (setUniform_Texture bk name t w) n' = resolvedLocation bk w n'"
proof -
  have "resolvedLocation bk (setUniform_Texture bk name t w) n'
        = resolvedLocation bk (snd (getUniformLocation bk name w)) n'"
    by (rule resolvedLocation_cong)
       (simp_all add: setUniform_Texture_outcome(1) [OF assms(1) refl assms(2)])
  then show ?thesis by (simp add: resolvedLocation_gul)
qed

text \<open>
  C10. When the name resolves to a valid location that is already a key of the texture table,
  \<open>setUniform(name, texture)\<close> replaces the texture stored there: the keys and the size
  of the table are unchanged and nothing is logged, whatever the backend's number of texture
  units is (the capacity check is not reached).
\<close>

theorem texture_replaced_in_place:
  assumes "m_shaderProgram (self w) \<noteq> 0"
    and "resolvedLocation bk w name = loc" and "loc \<noteq> -1"
    and "m_textures (self w) loc = Some old"
  shows "(let w' = setUniform bk name (U_Texture t) w in
            m_textures (self w') = (m_textures (self w))(loc \<mapsto> t)
          \<and> dom (m_textures (self w')) = dom (m_textures (self w))
          \<and> card (dom (m_textures (self w'))) = card (dom (m_textures (self w)))
          \<and> errLog w' = errLog w)"
proof -
  have d: "insert loc (dom (m_textures (self w))) = dom (m_textures (self w))"
    using assms(4) by auto
  show ?thesis
    using assms d
    by (simp add: Let_def setUniform_Texture_outcome [OF assms(1-3)] textures_gul)
qed

lemma fold_upd_dom:
  "dom (fold (\<lambda>(n, t) m. m(f n \<mapsto> t)) nts m) = dom m \<union> f ` fst ` set nts"
  by (induction nts arbitrary: m) (auto simp: split_beta)

lemma fold_upd_other:
  "k \<notin> f ` fst ` set nts \<Longrightarrow> fold (\<lambda>(n, t) m. m(f n \<mapsto> t)) nts m k = m k"
  by (induction nts arbitrary: m) (auto simp: split_beta)

lemma fold_upd_lookup:
  "distinct (map (f \<circ> fst) nts) \<Longrightarrow> (n, t) \<in> set nts \<Longrightarrow>
   fold (\<lambda>(n, t) m. m(f n \<mapsto> t)) nts m (f n) = Some t"
proof (induction nts arbitrary: m)
  case Nil
  then show ?case by simp
next
  case (Cons a nts)
  show ?case
  proof (cases "a = (n, t)")
    case True
    with Cons.prems(1) have notin: "f n \<notin> f ` fst ` set nts" by (auto simp: image_iff)
    have "fold (\<lambda>(n, t) m. m(f n \<mapsto> t)) nts (m(f n \<mapsto> t)) (f n) = (m(f n \<mapsto> t)) (f n)"
      by (rule fold_upd_other [OF notin])
    then show ?thesis unfolding True
      by (simp only: fold_simps comp_apply prod.case fun_upd_same)
  next
    case False
    with Cons show ?thesis by (auto simp: split_beta)
  qed
qed

lemma setTextures_fits:
  assumes "m_shaderProgram (self w) \<noteq> 0"
    and "finite (dom (m_textures (self w)))"
    and "card (dom (m_textures (self w))) + length nts < getMaxTextureUnits bk"
    and "distinct (map (resolvedLocation bk w \<circ> fst) nts)"
    and "\<forall>n\<in>fst ` set nts. resolvedLocation bk w n \<noteq> -1
            \<and> resolvedLocation bk w n \<notin> dom (m_textures (self w))"
  shows "m_textures (self (setTextures bk nts w)) =
           fold (\<lambda>(n, t) m. m(resolvedLocation bk w n \<mapsto> t)) nts (m_textures (self w))
       \<and> errLog (setTextures bk nts w) = errLog w
       \<and> m_shaderProgram (self (setTextures bk nts w)) = m_shaderProgram (self w)
       \<and> (\<forall>n'. resolvedLocation bk (setTextures bk nts w) n' = resolvedLocation bk w n')"
  using assms
proof (induction nts arbitrary: w)
  case Nil
  then show ?case by (simp add: setTextures_def)
next
  case (Cons a nts)
  obtain n t where a: "a = (n, t)" by (cases a)
  define loc where "loc = resolvedLocation bk w n"
  define w' where "w' = setUniform_Texture bk n t w"
  have loc: "loc \<noteq> -1" "m_textures (self w) loc = None"
    using Cons.prems(5) a by (auto simp: loc_def)
  have room: "\<not> getMaxTextureUnits bk \<le> card (dom (m_textures (self w))) + 1"
    using Cons.prems(3) by simp
  have tex: "m_textures (self w') = (m_textures (self w))(loc \<mapsto> t)"
    and log: "errLog w' = errLog w"
    using setUniform_Texture_outcome [OF Cons.prems(1) loc_def [symmetric] loc(1), of t] loc(2) room
    by (simp_all add: w'_def textures_gul)
  have prog: "m_shaderProgram (self w') = m_shaderProgram (self w)"
    using setUniform_Texture_outcome(1) [OF Cons.prems(1) loc_def [symmetric] loc(1), of t]
    by (simp add: w'_def program_gul)
  have res: "resolvedLocation bk w' n' = resolvedLocation bk w n'" for n'
    using resolvedLocation_setUniform_Texture [OF Cons.prems(1)] loc(1)
    by (simp add: w'_def loc_def)
  have res_fun: "resolvedLocation bk w' = resolvedLocation bk w"
    using res by (rule ext)
  have card: "card (dom (m_textures (self w'))) = card (dom (m_textures (self w))) + 1"
    using Cons.prems(2) loc(2) by (simp add: tex domIff)
  have ih: "m_textures (self (setTextures bk nts w')) =
           fold (\<lambda>(n, t) m. m(resolvedLocation bk w' n \<mapsto> t)) nts (m_textures (self w'))
       \<and> errLog (setTextures bk nts w') = errLog w'
       \<and> m_shaderProgram (self (setTextures bk nts w')) = m_shaderProgram (self w')
       \<and> (\<forall>n'. resolvedLocation bk (setTextures bk nts w') n' = resolvedLocation bk w' n')"
  proof (rule Cons.IH)
    show "m_shaderProgram (self w') \<noteq> 0" using prog Cons.prems(1) by simp
    show "finite (dom (m_textures (self w')))" using Cons.prems(2) by (simp add: tex)
    show "card (dom (m_textures (self w'))) + length nts < getMaxTextureUnits bk"
      using Cons.prems(3) by (simp add: card)
    show "distinct (map (resolvedLocation bk w' \<circ> fst) nts)"
      using Cons.prems(4) by (simp add: res_fun comp_def)
    show "\<forall>n\<in>fst ` set nts. resolvedLocation bk w' n \<noteq> -1
            \<and> resolvedLocation bk w' n \<notin> dom (m_textures (self w'))"
      using Cons.prems(4,5) a by (auto simp: res_fun tex loc_def image_iff)
  qed
  have unfold: "setTextures bk (a # nts) w = setTextures bk nts w'"
    by (simp add: setTextures_def a w'_def)
  have step: "fold (\<lambda>(n, t) m. m(resolvedLocation bk w n \<mapsto> t)) (a # nts) (m_textures (self w))
      = fold (\<lambda>(n, t) m. m(resolvedLocation bk w n \<mapsto> t)) nts (m_textures (self w'))"
    by (simp only: a fold_simps comp_apply prod.case tex loc_def)
  show ?case
    using ih unfolding unfold step res_fun log prog .
qed

text \<open>
  C2. With a backend reporting N texture units and a linked shader whose texture table is
  empty, binding textures to N - 1 names that resolve to distinct valid locations records every
  one of them (the table then has exactly those N - 1 keys) and logs nothing; one more call,
  for a name resolving to a further valid location, logs the capacity error and leaves the
  table as it was.
\<close>

theorem texture_unit_capacity:
  assumes "m_shaderProgram (self w) \<noteq> 0"
    and "m_textures (self w) = Map.empty"
    and "getMaxTextureUnits bk = N"
    and "length nts + 1 = N"
    and "distinct (map (resolvedLocation bk w \<circ> fst) nts)"
    and "\<forall>n\<in>fst ` set nts. resolvedLocation bk w n \<noteq> -1"
    and "resolvedLocation bk w name \<noteq> -1"
    and "resolvedLocation bk w name \<notin> resolvedLocation bk w ` fst ` set nts"
  shows "(let w1 = setTextures bk nts w;
              w2 = setUniform bk name (U_Texture tex) w1
          in (\<forall>(n, t)\<in>set nts. m_textures (self w1) (resolvedLocation bk w n) = Some t)
           \<and> dom (m_textures (self w1)) = resolvedLocation bk w ` fst ` set nts
           \<and> card (dom (m_textures (self w1))) = N - 1
           \<and> errLog w1 = errLog w
           \<and> m_textures (self w2) = m_textures (self w1)
           \<and> errLog w2 = errLog w1 @ [ErrTextureUnitsUsed name])"
proof -
  define w1 where "w1 = setTextures bk nts w"
  have fits: "m_textures (self w1) =
           fold (\<lambda>(n, t) m. m(resolvedLocation bk w n \<mapsto> t)) nts Map.empty"
    "errLog w1 = errLog w" "m_shaderProgram (self w1) = m_shaderProgram (self w)"
    "\<And>n'. resolvedLocation bk w1 n' = resolvedLocation bk w n'"
    using setTextures_fits [of w nts bk] assms by (simp_all add: w1_def)
  have dom1: "dom (m_textures (self w1)) = resolvedLocation bk w ` fst ` set nts"
    by (simp add: fits(1) fold_upd_dom)
  have "card (resolvedLocation bk w ` fst ` set nts) = length nts"
    using assms(5) distinct_card [of "map (resolvedLocation bk w \<circ> fst) nts"]
    by (simp add: image_image)
  then have card1: "card (dom (m_textures (self w1))) = N - 1"
    using assms(4) by (simp add: dom1)
  have look: "\<forall>(n, t)\<in>set nts. m_textures (self w1) (resolvedLocation bk w n) = Some t"
    using fold_upd_lookup [OF assms(5)] by (auto simp: fits(1))
  have none: "m_textures (self w1) (resolvedLocation bk w name) = None"
    using assms(8) dom1 by (auto simp: domIff)
  have full: "getMaxTextureUnits bk \<le> card (dom (m_textures (self w1))) + 1"
    using assms(3,4) card1 by simp
  have nth: "m_textures (self (setUniform_Texture bk name tex w1)) = m_textures (self w1)"
    "errLog (setUniform_Texture bk name tex w1) = errLog w1 @ [ErrTextureUnitsUsed name]"
    using setUniform_Texture_outcome [of w1 bk name "resolvedLocation bk w name" tex]
      assms(1,7) fits(3,4) none full
    by (simp_all add: textures_gul)
  show ?thesis
    using look dom1 card1 fits(2) nth by (simp add: Let_def w1_def)
qed

lemma example_resolved:
  "resolvedLocation example_backend example_shader ''tex0'' = 4"
  "resolvedLocation example_backend example_shader ''tex1'' = 6"
  "resolvedLocation example_backend full_shader ''tex0'' = 4"
  by (simp_all add: resolvedLocation_def getUniformLocation_def example_backend_def
        example_shader_def full_shader_def Let_def)

theorem texture_unit_capacity_witness:
  "m_shaderProgram (self example_shader) \<noteq> 0
   \<and> getMaxTextureUnits example_backend = 2
   \<and> (let w1 = setTextures example_backend [(''tex0'', 11)] example_shader;
           w2 = setUniform example_backend ''tex1'' (U_Texture 12) w1
       in m_textures (self w1) 4 = Some 11
        \<and> dom (m_textures (self w1)) = {4}
        \<and> card (dom (m_textures (self w1))) = 1
        \<and> errLog w1 = []
        \<and> m_textures (self w2) = m_textures (self w1)
        \<and> errLog w2 = [ErrTextureUnitsUsed ''tex1''])"
proof -
  have h1: "m_shaderProgram (self example_shader) \<noteq> 0"
    and h2: "m_textures (self example_shader) = Map.empty"
    and h3: "getMaxTextureUnits example_backend = 2"
    and h4: "length [(''tex0'', 11::nat)] + 1 = 2"
    and h5: "distinct (map (resolvedLocation example_backend example_shader \<circ> fst) [(''tex0'', 11::nat)])"
    and h6: "\<forall>n\<in>fst ` set [(''tex0'', 11::nat)].
               resolvedLocation example_backend example_shader n \<noteq> -1"
    and h7: "resolvedLocation example_backend example_shader ''tex1'' \<noteq> -1"
    and h8: "resolvedLocation example_backend example_shader ''tex1''
               \<notin> resolvedLocation example_backend example_shader ` fst ` set [(''tex0'', 11::nat)]"
    by (simp_all add: example_resolved)
       (simp_all add: example_shader_def getMaxTextureUnits_def example_backend_def)
  have e: "errLog example_shader = []" by (simp add: example_shader_def)
  from texture_unit_capacity [OF h1 h2 h3 h4 h5 h6 h7 h8, of 12] h1 h3 e
  show ?thesis
    by (simp add: Let_def example_resolved del: setUniform.simps)
qed

theorem texture_replaced_in_place_witness:
  "m_shaderProgram (self full_shader) \<noteq> 0
   \<and> getMaxTextureUnits example_backend \<le> card (dom (m_textures (self full_shader))) + 1
   \<and> m_textures (self full_shader) 4 = Some 11
   \<and> (let w' = setUniform example_backend ''tex0'' (U_Texture 12) full_shader in
         m_textures (self w') 4 = Some 12
       \<and> card (dom (m_textures (self w'))) = 1
       \<and> errLog w' = [])"
proof -
  have h1: "m_shaderProgram (self full_shader) \<noteq> 0"
    and h3: "(4::int) \<noteq> -1"
    and h4: "m_textures (self full_shader) 4 = Some 11"
    and full: "getMaxTextureUnits example_backend \<le> card (dom (m_textures (self full_shader))) + 1"
    and c: "dom (m_textures (self full_shader)) = {4}"
    and e: "errLog full_shader = []"
    by (simp_all add: full_shader_def getMaxTextureUnits_def example_backend_def)
  from texture_replaced_in_place [OF h1 example_resolved(3) h3 h4, of 12] h1 h4 full c e
  show ?thesis
    by (simp add: Let_def del: setUniform.simps)
qed

lemma grows_refl: "grows w w"
  by (simp add: grows_def)

lemma grows_emit: "grows w w1 \<Longrightarrow> grows w (emit c w1)"
  by (auto simp: grows_def)

lemma grows_logErr: "grows w w1 \<Longrightarrow> grows w (logErr e w1)"
  by (auto simp: grows_def)

lemma grows_compileOptional:
  "grows w w1 \<Longrightarrow> grows w (snd (compileOptional bk ty code p w1))"
  by (auto simp: compileOptional_def compileStage_def Let_def
           intro!: grows_emit grows_logErr split: option.splits)

lemma fst_compileOptional:
  "fst (compileOptional bk ty code p w) = (\<not> stageFails bk ty code)"
  by (simp add: compileOptional_def compileStage_def stageFails_def Let_def split: option.splits)

lemma grows_linkProgram:
  "\<not> linkStatus bk v g f \<Longrightarrow> grows w w1 \<Longrightarrow> grows w (snd (linkProgram bk v g f p w1))"
  by (auto simp: linkProgram_def Let_def intro!: grows_emit grows_logErr)

lemma fst_linkProgram: "fst (linkProgram bk v g f p w) = linkStatus bk v g f"
  by (simp add: linkProgram_def Let_def)

lemma compile_failed:
  assumes "shaderAvailable bk" and "g = None \<or> geometryAvailable bk" and "sourceFails bk v g f"
  shows "\<not> fst (compile bk v g f w)
       \<and> grows (emit glCreateProgramObject (resetShader (emit TransientContextLock_acquire w)))
           (snd (compile bk v g f w))"
  using assms
  by (auto simp: compile_def Let_def split_beta sourceFails_def fst_compileOptional
        fst_linkProgram
        intro!: grows_emit grows_compileOptional grows_linkProgram grows_refl)

text \<open>
  C6. A shader holds a linked program (handle \<open>old\<close>, not 0) and \<open>compile\<close> passes
  the capability checks. If a given stage does not compile or the program does not link, the
  call returns false; the first calls it made were to take the context lock and to delete
  \<open>old\<close>; the uniform-location cache and the texture table are empty, the current-texture
  slot is -1 and \<open>getNativeHandle\<close> is 0.
\<close>

theorem failed_recompile_not_restored:
  assumes "m_shaderProgram (self w) = old" and "old \<noteq> 0"
    and "shaderAvailable bk" and "g = None \<or> geometryAvailable bk"
    and "sourceFails bk v g f"
  shows "(let (ok, w') = compile bk v g f w in
            \<not> ok
          \<and> take 2 (drop (length (glCalls w)) (glCalls w'))
              = [TransientContextLock_acquire, glDeleteProgram old]
          \<and> m_uniforms (self w') = Map.empty
          \<and> m_textures (self w') = Map.empty
          \<and> m_currentTexture (self w') = -1
          \<and> getNativeHandle (self w') = 0)"
proof -
  obtain ok w' where c: "compile bk v g f w = (ok, w')"
    by (cases "compile bk v g f w")
  from compile_failed [OF assms(3-5), of w] c
  have ok: "\<not> ok"
    and g: "grows (emit glCreateProgramObject (resetShader (emit TransientContextLock_acquire w))) w'"
    by simp_all
  from g assms(1,2) have self: "self w' =
      (self w)\<lparr>m_shaderProgram := 0, m_currentTexture := -1, m_textures := Map.empty,
                m_uniforms := Map.empty\<rparr>"
    by (simp add: grows_def resetShader_def Let_def)
  from g assms(1,2) obtain r where
    "glCalls w' = glCalls w @ [TransientContextLock_acquire, glDeleteProgram old, glCreateProgramObject] @ r"
    by (auto simp: grows_def resetShader_def Let_def)
  then have calls: "take 2 (drop (length (glCalls w)) (glCalls w'))
              = [TransientContextLock_acquire, glDeleteProgram old]"
    by simp
  show ?thesis
    using ok calls by (simp add: c self getNativeHandle_def)
qed

theorem failed_recompile_not_restored_witness:
  "m_shaderProgram (self example_shader) = 5
   \<and> sourceFails example_backend (Some ''void main() {}'') None bad_fragment
   \<and> (let (ok, w') =
            compile example_backend (Some ''void main() {}'') None bad_fragment example_shader
       in \<not> ok
        \<and> take 2 (glCalls w') = [TransientContextLock_acquire, glDeleteProgram 5]
        \<and> m_uniforms (self w') = Map.empty
        \<and> m_textures (self w') = Map.empty
        \<and> m_currentTexture (self w') = -1
        \<and> getNativeHandle (self w') = 0)"
proof -
  have h1: "m_shaderProgram (self example_shader) = 5"
    and h2: "(5 :: 32 word) \<noteq> 0"
    and h3: "shaderAvailable example_backend"
    and h4: "(None :: string option) = None \<or> geometryAvailable example_backend"
    and h5: "sourceFails example_backend (Some ''void main() {}'') None bad_fragment"
    and e: "glCalls example_shader = []"
    by (simp_all add: example_shader_def example_backend_def sourceFails_def stageFails_def
          bad_fragment_def)
  from failed_recompile_not_restored [OF h1 h2 h3 h4 h5] h1 h5 e
  show ?thesis
    by (simp add: split_beta)
qed

section \<open>Properties of the render target\<close>

lemma static_cast_int_nonneg: "0 \<le> x \<Longrightarrow> static_cast_int x = \<lfloor>x\<rfloor>"
  by (simp add: static_cast_int_def)

lemma static_cast_int_nonpos: "x \<le> 0 \<Longrightarrow> static_cast_int x = \<lceil>x\<rceil>"
  by (cases "x = 0") (simp_all add: static_cast_int_def)

text \<open>
  What \<open>getViewport\<close> computes: each coordinate is the converted value truncated toward
  zero, its floor when the value is not negative and its ceiling when it is not positive.
\<close>

theorem getViewport_truncates:
  "(let r = getViewport pf rt view; vp = viewport view;
        l = viewportValue pf (fst (getSize rt)) (rect_left vp);
        t = viewportValue pf (snd (getSize rt)) (rect_top vp);
        w = viewportValue pf (fst (getSize rt)) (rect_width vp);
        h = viewportValue pf (snd (getSize rt)) (rect_height vp)
    in (int_castable l \<and> 0 \<le> l \<longrightarrow> rect_left r = \<lfloor>l\<rfloor>)
     \<and> (int_castable l \<and> l \<le> 0 \<longrightarrow> rect_left r = \<lceil>l\<rceil>)
     \<and> (int_castable t \<and> 0 \<le> t \<longrightarrow> rect_top r = \<lfloor>t\<rfloor>)
     \<and> (int_castable t \<and> t \<le> 0 \<longrightarrow> rect_top r = \<lceil>t\<rceil>)
     \<and> (int_castable w \<and> 0 \<le> w \<longrightarrow> rect_width r = \<lfloor>w\<rfloor>)
     \<and> (int_castable w \<and> w \<le> 0 \<longrightarrow> rect_width r = \<lceil>w\<rceil>)
     \<and> (int_castable h \<and> 0 \<le> h \<longrightarrow> rect_height r = \<lfloor>h\<rfloor>)
     \<and> (int_castable h \<and> h \<le> 0 \<longrightarrow> rect_height r = \<lceil>h\<rceil>))"
  by (simp add: Let_def getViewport_def viewportValue_def static_cast_int_nonneg
        static_cast_int_nonpos)

lemma shifted_values:
  "viewportValue desktop_platform (fst (getSize target_A)) (rect_left (viewport shifted_view)) = - (1 / 2)"
  "viewportValue desktop_platform (snd (getSize target_A)) (rect_top (viewport shifted_view)) = 1"
  "viewportValue desktop_platform (fst (getSize target_A)) (rect_width (viewport shifted_view)) = 9 / 2"
  "viewportValue desktop_platform (snd (getSize target_A)) (rect_height (viewport shifted_view)) = 5 / 2"
  by (simp_all add: viewportValue_def desktop_platform_def target_A_def shifted_view_def)

lemma ceiling_minus_half: "\<lceil>- (1 / 2) :: real\<rceil> = 0"
  by (simp add: ceiling_def)

theorem getViewport_truncates_witness:
  "getViewport desktop_platform target_A shifted_view =
     \<lparr>rect_left = 0, rect_top = 1, rect_width = 4, rect_height = 2\<rparr>"
proof -
  from getViewport_truncates [of desktop_platform target_A shifted_view]
  have "rect_left (getViewport desktop_platform target_A shifted_view) = 0"
    "rect_top (getViewport desktop_platform target_A shifted_view) = 1"
    "rect_width (getViewport desktop_platform target_A shifted_view) = 4"
    "rect_height (getViewport desktop_platform target_A shifted_view) = 2"
    by (simp_all add: Let_def shifted_values int_castable_def ceiling_minus_half)
  then show ?thesis
    by (cases "getViewport desktop_platform target_A shifted_view") simp
qed

text \<open>
  C8. A target of 4 by 4 pixels and a viewport whose left edge is -1/4: the product is -1, the
  value converted is -1/2 (every number here is exactly representable in single precision),
  and \<open>getViewport\<close> returns 0 for the left coordinate, where floor(0.5 + x), the nearest
  integer to the product, is -1.
\<close>

theorem getViewport_negative_coordinate:
  "rect_left (getViewport desktop_platform target_A shifted_view) = 0
   \<and> \<lfloor>0.5 + real (fst (getSize target_A)) * rect_left (viewport shifted_view)\<rfloor> = (- 1 :: int)"
  by (simp add: getViewport_def desktop_platform_def target_A_def shifted_view_def Let_def
        static_cast_int_def ceiling_minus_half)

lemma ensureActive_eq: "ensureActive C w = setActive True C w"
  by (simp add: ensureActive_def setActive_def isActive_def split: option.splits)

lemma call_simps [simp]:
  "target (call c w) = target w"
  "cache (call c w) = cache w"
  "contextRenderTargetMap (call c w) = contextRenderTargetMap w"
  "warned_equationToGlConstant (call c w) = warned_equationToGlConstant w"
  "warned_applyBlendMode (call c w) = warned_applyBlendMode w"
  "commands (call c w) = commands w @ [c]"
  "errors (call c w) = errors w"
  by (simp_all add: call_def cache_def)

lemma calls_simps [simp]:
  "target (calls cs w) = target w"
  "cache (calls cs w) = cache w"
  "contextRenderTargetMap (calls cs w) = contextRenderTargetMap w"
  "warned_equationToGlConstant (calls cs w) = warned_equationToGlConstant w"
  "warned_applyBlendMode (calls cs w) = warned_applyBlendMode w"
  "commands (calls cs w) = commands w @ cs"
  "errors (calls cs w) = errors w"
  by (simp_all add: calls_def cache_def)

lemma err_simps [simp]:
  "target (err e w) = target w"
  "cache (err e w) = cache w"
  "contextRenderTargetMap (err e w) = contextRenderTargetMap w"
  "warned_equationToGlConstant (err e w) = warned_equationToGlConstant w"
  "warned_applyBlendMode (err e w) = warned_applyBlendMode w"
  "commands (err e w) = commands w"
  "errors (err e w) = errors w @ [e]"
  by (simp_all add: err_def cache_def)

lemma setCache_simps [simp]:
  "cache (setCache f w) = f (cache w)"
  "m_id (target (setCache f w)) = m_id (target w)"
  "m_view (target (setCache f w)) = m_view (target w)"
  "getSize (target (setCache f w)) = getSize (target w)"
  "contextRenderTargetMap (setCache f w) = contextRenderTargetMap w"
  "warned_equationToGlConstant (setCache f w) = warned_equationToGlConstant w"
  "warned_applyBlendMode (setCache f w) = warned_applyBlendMode w"
  "commands (setCache f w) = commands w"
  "errors (setCache f w) = errors w"
  by (simp_all add: setCache_def cache_def)

lemma trackedCalls_simps [simp]:
  "trackedCalls (call c w) = trackedCalls w @ (if tracked c then [c] else [])"
  "trackedCalls (calls cs w) = trackedCalls w @ filter tracked cs"
  "trackedCalls (err e w) = trackedCalls w"
  "trackedCalls (setCache f w) = trackedCalls w"
  by (simp_all add: trackedCalls_def)

lemma extends_refl: "extends w w"
  by (simp add: extends_def)

lemma extends_trans: "extends w w1 \<Longrightarrow> extends w1 w2 \<Longrightarrow> extends w w2"
  by (auto simp: extends_def)

lemma extends_steps:
  "extends w w1 \<Longrightarrow> extends w (call c w1)"
  "extends w w1 \<Longrightarrow> extends w (calls cs w1)"
  "extends w w1 \<Longrightarrow> extends w (err e w1)"
  "extends w w1 \<Longrightarrow> extends w (setCache f w1)"
  by (auto simp: extends_def)

lemma logStep_refl: "logStep w w"
  by (simp add: logStep_def)

lemma logStep_trans: "logStep w w1 \<Longrightarrow> logStep w1 w2 \<Longrightarrow> logStep w w2"
  by (auto simp: logStep_def)

lemma logStep_summary: "summary w' = summary w \<Longrightarrow> logStep w w'"
  by (simp add: summary_def logStep_def unavailableWarnings_def fallbackWarnings_def)

lemma summary_simple [simp]:
  "\<not> tracked c \<Longrightarrow> summary (call c w) = summary w"
  "summary (applyTexture tex w) = summary w"
  "summary (applyShader s w) = summary w"
  "summary (applyTransform t w) = summary w"
  "summary (applyCurrentView pf w) = summary w"
  "summary (textureUniforms pf us tx w) = summary w"
  "summary (bindUsedShader pf us w) = summary w"
  "summary (desktopPointers u e d w) = summary w"
  "summary (esPointers e d w) = summary w"
  by (simp_all add: summary_def applyTexture_def applyShader_def applyTransform_def
        applyCurrentView_def textureUniforms_def bindUsedShader_def desktopPointers_def
        esPointers_def viewportCall_def attribCalls_def tracked_def Let_def)

lemma extends_simple:
  "extends w w1 \<Longrightarrow> extends w (applyTexture tex w1)"
  "extends w w1 \<Longrightarrow> extends w (applyShader s w1)"
  "extends w w1 \<Longrightarrow> extends w (applyTransform t w1)"
  "extends w w1 \<Longrightarrow> extends w (applyCurrentView pf w1)"
  "extends w w1 \<Longrightarrow> extends w (textureUniforms pf us tx w1)"
  "extends w w1 \<Longrightarrow> extends w (bindUsedShader pf us w1)"
  "extends w w1 \<Longrightarrow> extends w (desktopPointers u e d w1)"
  "extends w w1 \<Longrightarrow> extends w (esPointers e d w1)"
  "extends w w1 \<Longrightarrow> extends w (drawPrimitives ty a b w1)"
  by (auto simp: extends_def applyTexture_def applyShader_def applyTransform_def
        applyCurrentView_def textureUniforms_def bindUsedShader_def desktopPointers_def
        esPointers_def drawPrimitives_def Let_def)

lemma equationToGlConstant_effect:
  "fst (equationToGlConstant pf e w) = equationConstant pf e"
  "target (snd (equationToGlConstant pf e w)) = target w"
  "cache (snd (equationToGlConstant pf e w)) = cache w"
  "contextRenderTargetMap (snd (equationToGlConstant pf e w)) = contextRenderTargetMap w"
  "commands (snd (equationToGlConstant pf e w)) = commands w"
  "logStep w (snd (equationToGlConstant pf e w))"
  by (simp_all add: equationToGlConstant_def equationConstant_def cache_def logStep_def
        unavailableWarnings_def fallbackWarnings_def split: option.splits)

lemma blendCommands_tracked [simp]:
  "filter tracked (blendCommands pf mode) = blendCommands pf mode"
  "filter is_blend_call (blendCommands pf mode) = blendCommands pf mode"
  "filter is_draw_call (blendCommands pf mode) = []"
  "blendCommands pf mode \<noteq> []"
  by (simp_all add: blendCommands_def tracked_def)

lemma blendCommands_no_equation:
  "\<not> GLEXT_blend_minmax pf \<Longrightarrow> \<not> GLEXT_blend_subtract pf \<Longrightarrow>
   filter is_equation_call (blendCommands pf mode) = []"
  by (simp add: blendCommands_def)

lemma update_simps [simp]:
  "cache (w\<lparr>warned_applyBlendMode := b\<rparr>) = cache w"
  "cache (w\<lparr>warned_equationToGlConstant := b\<rparr>) = cache w"
  "cache (w\<lparr>contextRenderTargetMap := m\<rparr>) = cache w"
  "cache (w\<lparr>target := t\<rparr>) = m_cache t"
  "trackedCalls (w\<lparr>warned_applyBlendMode := b\<rparr>) = trackedCalls w"
  "trackedCalls (w\<lparr>warned_equationToGlConstant := b\<rparr>) = trackedCalls w"
  "trackedCalls (w\<lparr>contextRenderTargetMap := m\<rparr>) = trackedCalls w"
  "trackedCalls (w\<lparr>target := t\<rparr>) = trackedCalls w"
  by (simp_all add: cache_def trackedCalls_def)

lemma applyBlendMode_effect:
  "cache (applyBlendMode pf mode w) = (cache w)\<lparr>lastBlendMode := mode\<rparr>"
  "m_id (target (applyBlendMode pf mode w)) = m_id (target w)"
  "m_view (target (applyBlendMode pf mode w)) = m_view (target w)"
  "getSize (target (applyBlendMode pf mode w)) = getSize (target w)"
  "contextRenderTargetMap (applyBlendMode pf mode w) = contextRenderTargetMap w"
  "commands (applyBlendMode pf mode w) = commands w @ blendCommands pf mode"
  by (simp_all add: applyBlendMode_def blendCommands_def Let_def split_beta
        equationToGlConstant_effect)

lemma logStep_steps:
  "logStep w w1 \<Longrightarrow> logStep w (call c w1)"
  "logStep w w1 \<Longrightarrow> logStep w (calls cs w1)"
  "logStep w w1 \<Longrightarrow> logStep w (setCache f w1)"
  "logStep w w1 \<Longrightarrow> logStep w (snd (equationToGlConstant pf e w1))"
  "logStep w w1 \<Longrightarrow> \<not> warned_applyBlendMode w1 \<Longrightarrow>
     logStep w ((err WarnBlendEquationUnavailable w1)\<lparr>warned_applyBlendMode := True\<rparr>)"
  "logStep w w1 \<Longrightarrow> logStep w (err ErrQuadsUnsupported w1)"
  "logStep w w1 \<Longrightarrow> logStep w (err ErrVertexBufferUnavailable w1)"
proof -
  assume a: "logStep w w1"
  show "logStep w (call c w1)" "logStep w (calls cs w1)" "logStep w (setCache f w1)"
    "logStep w (err ErrQuadsUnsupported w1)" "logStep w (err ErrVertexBufferUnavailable w1)"
    using a by (simp_all add: logStep_def unavailableWarnings_def fallbackWarnings_def)
  show "logStep w (snd (equationToGlConstant pf e w1))"
    by (rule logStep_trans [OF a]) (rule equationToGlConstant_effect)
  assume "\<not> warned_applyBlendMode w1"
  then have "logStep w1 ((err WarnBlendEquationUnavailable w1)\<lparr>warned_applyBlendMode := True\<rparr>)"
    by (simp add: logStep_def unavailableWarnings_def fallbackWarnings_def)
  then show "logStep w ((err WarnBlendEquationUnavailable w1)\<lparr>warned_applyBlendMode := True\<rparr>)"
    by (rule logStep_trans [OF a])
qed

lemma applyBlendMode_logStep: "logStep w w1 \<Longrightarrow> logStep w (applyBlendMode pf mode w1)"
  unfolding applyBlendMode_def Let_def split_beta
  by (auto intro!: logStep_steps)

lemma trackedCalls_applyBlendMode [simp]:
  "trackedCalls (applyBlendMode pf mode w) = trackedCalls w @ blendCommands pf mode"
  by (simp add: trackedCalls_def applyBlendMode_effect)

lemma ensureActive_setActive: "ensureActive C w = setActive True C w"
  by (simp add: ensureActive_def setActive_def isActive_def split: option.splits)

lemma setActive_effect:
  "fst (setActive a C w) = True"
  "m_id (target (snd (setActive a C w))) = m_id (target w)"
  "m_view (target (snd (setActive a C w))) = m_view (target w)"
  "getSize (target (snd (setActive a C w))) = getSize (target w)"
  "commands (snd (setActive a C w)) = commands w"
  "errors (snd (setActive a C w)) = errors w"
  "warned_applyBlendMode (snd (setActive a C w)) = warned_applyBlendMode w"
  "warned_equationToGlConstant (snd (setActive a C w)) = warned_equationToGlConstant w"
  "lastBlendMode (cache (snd (setActive a C w))) = lastBlendMode (cache w)"
  "vertexCache (cache (snd (setActive a C w))) = vertexCache (cache w)"
  "posAttrib (cache (snd (setActive a C w))) = posAttrib (cache w)"
  "colAttrib (cache (snd (setActive a C w))) = colAttrib (cache w)"
  "texAttrib (cache (snd (setActive a C w))) = texAttrib (cache w)"
  "contextRenderTargetMap (snd (setActive a C w)) =
     (if a then (contextRenderTargetMap w)(C \<mapsto> m_id (target w))
      else (contextRenderTargetMap w)(C := None))"
  by (auto simp: setActive_def split: option.splits)

lemma setActive_True_flags:
  "isActive (m_id (target w)) C w \<Longrightarrow> snd (setActive True C w) = w"
  "\<not> isActive (m_id (target w)) C w \<Longrightarrow> \<not> enable (cache (snd (setActive True C w)))"
  "glStatesSet (cache (snd (setActive True C w))) \<Longrightarrow> glStatesSet (cache w)"
  by (auto simp: setActive_def isActive_def split: option.splits if_splits)

lemma setView_simps [simp]:
  "cache (setView v w) = (cache w)\<lparr>viewChanged := True\<rparr>"
  "m_id (target (setView v w)) = m_id (target w)"
  "getSize (target (setView v w)) = getSize (target w)"
  "m_view (target (setView v w)) = v"
  "contextRenderTargetMap (setView v w) = contextRenderTargetMap w"
  "warned_equationToGlConstant (setView v w) = warned_equationToGlConstant w"
  "warned_applyBlendMode (setView v w) = warned_applyBlendMode w"
  "commands (setView v w) = commands w"
  "errors (setView v w) = errors w"
  "trackedCalls (setView v w) = trackedCalls w"
  by (simp_all add: setView_def cache_def setCache_def trackedCalls_def)

lemma summary_cong:
  "summary w1 = summary w \<Longrightarrow> enable (cache w1) = enable (cache w)"
  "summary w1 = summary w \<Longrightarrow> glStatesSet (cache w1) = glStatesSet (cache w)"
  "summary w1 = summary w \<Longrightarrow> lastBlendMode (cache w1) = lastBlendMode (cache w)"
  "summary w1 = summary w \<Longrightarrow> vertexCache (cache w1) = vertexCache (cache w)"
  "summary w1 = summary w \<Longrightarrow> contextRenderTargetMap w1 = contextRenderTargetMap w"
  "summary w1 = summary w \<Longrightarrow> m_id (target w1) = m_id (target w)"
  "summary w1 = summary w \<Longrightarrow> trackedCalls w1 = trackedCalls w"
  by (simp_all add: summary_def)

lemma resetMiddle_summary [simp]: "summary (resetMiddle pf w) = summary w"
  by (simp add: resetMiddle_def summary_def Let_def attribCalls_def tracked_def)

lemma resetMiddle_extends: "extends w w1 \<Longrightarrow> extends w (resetMiddle pf w1)"
  by (auto simp: resetMiddle_def Let_def extends_def)

lemma resetEnd_effect:
  "enable (cache (resetEnd pf w))"
  "glStatesSet (cache (resetEnd pf w)) = glStatesSet (cache w)"
  "lastBlendMode (cache (resetEnd pf w)) = lastBlendMode (cache w)"
  "vertexCache (cache (resetEnd pf w)) = vertexCache (cache w)"
  "m_id (target (resetEnd pf w)) = m_id (target w)"
  "contextRenderTargetMap (resetEnd pf w) = contextRenderTargetMap w"
  "trackedCalls (resetEnd pf w) = trackedCalls w"
  "errors (resetEnd pf w) = errors w"
  "warned_applyBlendMode (resetEnd pf w) = warned_applyBlendMode w"
  "warned_equationToGlConstant (resetEnd pf w) = warned_equationToGlConstant w"
  by (simp_all add: resetEnd_def Let_def applyShader_def tracked_def)

lemma resetEnd_extends: "extends w w1 \<Longrightarrow> extends w (resetEnd pf w1)"
  by (auto simp: resetEnd_def Let_def extends_def applyShader_def)

lemma resetGLStates_stages:
  "resetGLStates pf C w =
     resetEnd pf (applyTexture None (applyBlendMode pf (BlendAlpha pf)
       (setCache (\<lambda>c. c\<lparr>glStatesSet := True\<rparr>)
          (resetMiddle pf (snd (setActive True C
             (if SFML_SYSTEM_MACOS pf then snd (setActive False C w) else w)))))))"
  by (simp add: resetGLStates_def resetEnd_def resetMiddle_def Let_def split_beta
        ensureActive_setActive setActive_effect(1))

lemmas applyTexture_proj = summary_cong [OF summary_simple(2)]

lemmas resetMiddle_proj = summary_cong [OF resetMiddle_summary]

lemma trackedCalls_setActive [simp]:
  "trackedCalls (snd (setActive a C w)) = trackedCalls w"
  by (simp add: trackedCalls_def setActive_effect)

lemma logStep_setActive: "logStep w w1 \<Longrightarrow> logStep w (snd (setActive a C w1))"
  by (simp add: logStep_def unavailableWarnings_def fallbackWarnings_def setActive_effect)

lemma extends_setActive: "extends w w1 \<Longrightarrow> extends w (snd (setActive a C w1))"
  by (simp add: extends_def setActive_effect)

lemma logStep_same:
  "logStep w w1 \<Longrightarrow> errors w2 = errors w1 \<Longrightarrow>
   warned_applyBlendMode w2 = warned_applyBlendMode w1 \<Longrightarrow>
   warned_equationToGlConstant w2 = warned_equationToGlConstant w1 \<Longrightarrow> logStep w w2"
  by (simp add: logStep_def unavailableWarnings_def fallbackWarnings_def)

lemma logStep_summary': "logStep w w1 \<Longrightarrow> summary w2 = summary w1 \<Longrightarrow> logStep w w2"
  by (rule logStep_same) (simp_all add: summary_def)

lemma resetGLStates_effect:
  "enable (cache (resetGLStates pf C w))"
  "glStatesSet (cache (resetGLStates pf C w))"
  "lastBlendMode (cache (resetGLStates pf C w)) = BlendAlpha pf"
  "vertexCache (cache (resetGLStates pf C w)) = vertexCache (cache w)"
  "m_id (target (resetGLStates pf C w)) = m_id (target w)"
  "contextRenderTargetMap (resetGLStates pf C w) = (contextRenderTargetMap w)(C \<mapsto> m_id (target w))"
  "trackedCalls (resetGLStates pf C w) = trackedCalls w @ blendCommands pf (BlendAlpha pf)"
  by (simp_all add: resetGLStates_stages resetEnd_effect applyTexture_proj applyBlendMode_effect
        resetMiddle_proj setActive_effect)

lemma resetGLStates_logStep: "logStep w w1 \<Longrightarrow> logStep w (resetGLStates pf C w1)"
  unfolding resetGLStates_stages
  apply (rule logStep_same [OF _ resetEnd_effect(8) resetEnd_effect(9) resetEnd_effect(10)])
  apply (rule logStep_summary' [OF _ summary_simple(2)])
  apply (rule applyBlendMode_logStep)
  apply (rule logStep_steps(3))
  apply (rule logStep_summary' [OF _ resetMiddle_summary])
  apply (rule logStep_setActive)
  apply (auto intro: logStep_setActive)
  done

lemma extends_applyBlendMode: "extends w w1 \<Longrightarrow> extends w (applyBlendMode pf mode w1)"
  by (auto simp: extends_def applyBlendMode_effect)

lemma resetGLStates_extends: "extends w w1 \<Longrightarrow> extends w (resetGLStates pf C w1)"
  unfolding resetGLStates_stages
  by (intro resetEnd_extends extends_simple extends_applyBlendMode extends_steps
        resetMiddle_extends extends_setActive)
     (auto intro: extends_setActive)

lemma setupDraw_stages:
  "setupDraw pf C u states w =
     setupTail pf states (blendStep pf states (viewStep pf states
       (transformStep pf u states (resetStep pf C (srgbStep w)))))"
  unfolding setupDraw_def setupTail_def blendStep_def viewStep_def transformStep_def
    resetStep_def srgbStep_def Let_def
  by (rule refl)

lemma steps_summary [simp]:
  "summary (srgbStep w) = summary w"
  "summary (transformStep pf u states w) = summary w"
  "summary (viewStep pf states w) = summary w"
  "summary (setupTail pf states w) = summary w"
  by (simp_all add: srgbStep_def transformStep_def viewStep_def setupTail_def Let_def
        tracked_def viewportCall_def split: option.splits)

lemma steps_extends:
  "extends w w1 \<Longrightarrow> extends w (srgbStep w1)"
  "extends w w1 \<Longrightarrow> extends w (resetStep pf C w1)"
  "extends w w1 \<Longrightarrow> extends w (transformStep pf u states w1)"
  "extends w w1 \<Longrightarrow> extends w (viewStep pf states w1)"
  "extends w w1 \<Longrightarrow> extends w (blendStep pf states w1)"
  "extends w w1 \<Longrightarrow> extends w (setupTail pf states w1)"
  by (auto simp: srgbStep_def resetStep_def transformStep_def viewStep_def blendStep_def
        setupTail_def Let_def
        intro!: extends_steps extends_simple resetGLStates_extends extends_applyBlendMode
        split: option.splits)

lemma transformStep_gpu:
  "commands (transformStep pf False states w) = commands w @ [gpuTransformCall pf states]"
  by (simp add: transformStep_def gpuTransformCall_def applyTransform_def)

lemmas srgb_proj = summary_cong [OF steps_summary(1)]

lemmas transform_proj = summary_cong [OF steps_summary(2)]

lemmas view_proj = summary_cong [OF steps_summary(3)]

lemmas tail_proj = summary_cong [OF steps_summary(4)]

lemma blendStep_effect:
  "enable (cache (blendStep pf states w)) = enable (cache w)"
  "glStatesSet (cache (blendStep pf states w)) = glStatesSet (cache w)"
  "lastBlendMode (cache (blendStep pf states w)) = blendMode states"
  "vertexCache (cache (blendStep pf states w)) = vertexCache (cache w)"
  "contextRenderTargetMap (blendStep pf states w) = contextRenderTargetMap w"
  "m_id (target (blendStep pf states w)) = m_id (target w)"
  "trackedCalls (blendStep pf states w) =
     trackedCalls w @ (if \<not> enable (cache w) \<or> blendMode states \<noteq> lastBlendMode (cache w)
                       then blendCommands pf (blendMode states) else [])"
  by (simp_all add: blendStep_def applyBlendMode_effect)

lemma resetStep_effect:
  "glStatesSet (cache (resetStep pf C w))"
  "enable (cache (resetStep pf C w)) = (if glStatesSet (cache w) then enable (cache w) else True)"
  "lastBlendMode (cache (resetStep pf C w)) =
     (if glStatesSet (cache w) then lastBlendMode (cache w) else BlendAlpha pf)"
  "vertexCache (cache (resetStep pf C w)) = vertexCache (cache w)"
  "contextRenderTargetMap (resetStep pf C w) =
     (if glStatesSet (cache w) then contextRenderTargetMap w
      else (contextRenderTargetMap w)(C \<mapsto> m_id (target w)))"
  "m_id (target (resetStep pf C w)) = m_id (target w)"
  "trackedCalls (resetStep pf C w) =
     trackedCalls w @ (if glStatesSet (cache w) then [] else blendCommands pf (BlendAlpha pf))"
  by (simp_all add: resetStep_def resetGLStates_effect)

lemma setupDraw_effect:
  "glStatesSet (cache (setupDraw pf C u states w))"
  "enable (cache (setupDraw pf C u states w)) =
     (if glStatesSet (cache w) then enable (cache w) else True)"
  "lastBlendMode (cache (setupDraw pf C u states w)) = blendMode states"
  "vertexCache (cache (setupDraw pf C u states w)) = vertexCache (cache w)"
  "contextRenderTargetMap (setupDraw pf C u states w) =
     (if glStatesSet (cache w) then contextRenderTargetMap w
      else (contextRenderTargetMap w)(C \<mapsto> m_id (target w)))"
  "m_id (target (setupDraw pf C u states w)) = m_id (target w)"
  "trackedCalls (setupDraw pf C u states w) =
     trackedCalls w
     @ (if glStatesSet (cache w) then [] else blendCommands pf (BlendAlpha pf))
     @ (if \<not> (if glStatesSet (cache w) then enable (cache w) else True)
           \<or> blendMode states \<noteq> (if glStatesSet (cache w) then lastBlendMode (cache w)
                                    else BlendAlpha pf)
        then blendCommands pf (blendMode states) else [])"
  by (simp_all add: setupDraw_stages tail_proj blendStep_effect view_proj transform_proj
        resetStep_effect srgb_proj)

lemma setupDraw_logStep: "logStep w w1 \<Longrightarrow> logStep w (setupDraw pf C u states w1)"
  unfolding setupDraw_stages
  apply (rule logStep_summary' [OF _ steps_summary(4)])
  apply (unfold blendStep_def)
  apply (rule logStep_trans [where ?w1.0 = "viewStep pf states
            (transformStep pf u states (resetStep pf C (srgbStep w1)))"])
   apply (rule logStep_summary' [OF _ steps_summary(3)])
   apply (rule logStep_summary' [OF _ steps_summary(2)])
   apply (unfold resetStep_def)
   apply (rule logStep_trans [where ?w1.0 = "srgbStep w1"])
    apply (rule logStep_summary' [OF _ steps_summary(1)])
    apply assumption
   apply (auto intro!: resetGLStates_logStep applyBlendMode_logStep logStep_refl)
  done


lemma cleanupDraw_effect:
  "enable (cache (cleanupDraw pf states w))"
  "glStatesSet (cache (cleanupDraw pf states w)) = glStatesSet (cache w)"
  "lastBlendMode (cache (cleanupDraw pf states w)) = lastBlendMode (cache w)"
  "vertexCache (cache (cleanupDraw pf states w)) = vertexCache (cache w)"
  "contextRenderTargetMap (cleanupDraw pf states w) = contextRenderTargetMap w"
  "m_id (target (cleanupDraw pf states w)) = m_id (target w)"
  "trackedCalls (cleanupDraw pf states w) = trackedCalls w"
  "errors (cleanupDraw pf states w) = errors w"
  "warned_applyBlendMode (cleanupDraw pf states w) = warned_applyBlendMode w"
  "warned_equationToGlConstant (cleanupDraw pf states w) = warned_equationToGlConstant w"
  by (simp_all add: cleanupDraw_def Let_def applyShader_def applyTexture_def tracked_def
        split: option.splits)

lemma cleanupDraw_extends: "extends w w1 \<Longrightarrow> extends w (cleanupDraw pf states w1)"
  by (auto simp: cleanupDraw_def Let_def intro!: extends_steps extends_simple split: option.splits)

lemma drawPrimitives_effect:
  "cache (drawPrimitives ty a b w) = cache w"
  "target (drawPrimitives ty a b w) = target w"
  "contextRenderTargetMap (drawPrimitives ty a b w) = contextRenderTargetMap w"
  "trackedCalls (drawPrimitives ty a b w) = trackedCalls w @ [glDrawArrays (modes ty) a b]"
  "errors (drawPrimitives ty a b w) = errors w"
  "warned_applyBlendMode (drawPrimitives ty a b w) = warned_applyBlendMode w"
  "warned_equationToGlConstant (drawPrimitives ty a b w) = warned_equationToGlConstant w"
  by (simp_all add: drawPrimitives_def tracked_def)

lemma draw_stages:
  assumes "n \<noteq> 0" and "\<not> (SFML_OPENGL_ES pf \<and> ty = Quads)"
  shows "draw pf C (Some vs) n ty states w =
     setCache (\<lambda>c. c\<lparr>useVertexCache := (n \<le> VertexCacheSize pf),
                        texCoordsArrayEnabled := (texture states \<noteq> None \<or> shader states \<noteq> None)\<rparr>)
       (cleanupDraw pf states (drawPrimitives ty 0 n (pointerStep pf states vs n
          (setupDraw pf C (n \<le> VertexCacheSize pf) states
             (preStep pf states vs n (snd (setActive True C w)))))))"
proof -
  have g: "(n = 0) = False" "(SFML_OPENGL_ES pf \<and> ty = Quads) = False"
    using assms by simp_all
  show ?thesis
    unfolding draw_def pointerStep_def preStep_def Let_def split_beta ensureActive_setActive
      setActive_effect(1) g
    by (simp only: option.case if_False if_True)
qed

lemma draw_VertexBuffer_stages:
  assumes "performed pf (DrawBuffer vb first n states)"
  shows "draw_VertexBuffer pf C vb first n states w =
     setCache (\<lambda>c. c\<lparr>useVertexCache := False, texCoordsArrayEnabled := True\<rparr>)
       (cleanupDraw pf states (call (VertexBuffer_bind None)
          (drawPrimitives (vb_primitiveType vb) first (min n (vb_vertexCount vb - first))
             (bufferPointerStep pf (call (VertexBuffer_bind (Some vb))
                (setupDraw pf C False states (snd (setActive True C w))))))))"
proof -
  have g: "(\<not> VertexBuffer_isAvailable pf) = False" "(first > vb_vertexCount vb) = False"
    "(min n (vb_vertexCount vb - first) = 0 \<or> vb_nativeHandle vb = 0) = False"
    "(SFML_OPENGL_ES pf \<and> vb_primitiveType vb = Quads) = False"
    using assms by simp_all
  show ?thesis
    unfolding draw_VertexBuffer_def bufferPointerStep_def Let_def split_beta
      ensureActive_setActive setActive_effect(1) g
    by (simp only: if_False if_True)
qed

lemma pointer_summary [simp]:
  "summary (pointerStep pf states vs n w) = summary w"
  "summary (bufferPointerStep pf w) = summary w"
  by (simp_all add: pointerStep_def bufferPointerStep_def)
     (simp_all add: summary_def tracked_def)

lemma pointer_extends:
  "extends w w1 \<Longrightarrow> extends w (pointerStep pf states vs n w1)"
  "extends w w1 \<Longrightarrow> extends w (bufferPointerStep pf w1)"
  "extends w w1 \<Longrightarrow> extends w (preStep pf states vs n w1)"
  by (auto simp: pointerStep_def bufferPointerStep_def preStep_def
        intro!: extends_simple extends_steps)

lemmas pointer_proj = summary_cong [OF pointer_summary(1)]

lemmas bufferPointer_proj = summary_cong [OF pointer_summary(2)]

lemma preStep_effect:
  "enable (cache (preStep pf states vs n w)) = enable (cache w)"
  "glStatesSet (cache (preStep pf states vs n w)) = glStatesSet (cache w)"
  "lastBlendMode (cache (preStep pf states vs n w)) = lastBlendMode (cache w)"
  "vertexCache (cache (preStep pf states vs n w)) =
     (if n \<le> VertexCacheSize pf
      then preTransform pf (transform states) vs n (vertexCache (cache w))
      else vertexCache (cache w))"
  "contextRenderTargetMap (preStep pf states vs n w) = contextRenderTargetMap w"
  "m_id (target (preStep pf states vs n w)) = m_id (target w)"
  "trackedCalls (preStep pf states vs n w) = trackedCalls w"
  "errors (preStep pf states vs n w) = errors w"
  "warned_applyBlendMode (preStep pf states vs n w) = warned_applyBlendMode w"
  "warned_equationToGlConstant (preStep pf states vs n w) = warned_equationToGlConstant w"
  "commands (preStep pf states vs n w) = commands w"
  by (simp_all add: preStep_def)

lemma issued_member:
  "extends w x \<Longrightarrow> commands y = commands x @ [g] \<Longrightarrow> extends y w' \<Longrightarrow> g \<in> set (issued w w')"
  by (auto simp: extends_def issued_def)

lemma preTransform_length [simp]: "length (preTransform pf t vs n vc) = length vc"
  by (induction n) (simp_all add: preTransform_def)

lemma preTransform_nth:
  "n \<le> length vc \<Longrightarrow> i < n \<Longrightarrow>
   preTransform pf t vs n vc ! i =
     \<lparr>position = transformPoint pf t (position (vs ! i)), color = color (vs ! i),
      texCoords = texCoords (vs ! i)\<rparr>"
proof (induction n)
  case 0
  then show ?case by simp
next
  case (Suc n)
  have len: "length (preTransform pf t vs n vc) = length vc" by simp
  show ?case
  proof (cases "i = n")
    case True
    with Suc.prems len show ?thesis
      by (simp add: preTransform_def)
  next
    case False
    with Suc.prems have "i < n" by simp
    with Suc.IH Suc.prems False show ?thesis
      by (simp add: preTransform_def)
  qed
qed

lemma preTransform_beyond: "n \<le> i \<Longrightarrow> preTransform pf t vs n vc ! i = vc ! i"
  by (induction n) (simp_all add: preTransform_def)

lemma draw_effect:
  assumes "n \<noteq> 0" and "\<not> (SFML_OPENGL_ES pf \<and> ty = Quads)"
  shows "enable (cache (draw pf C (Some vs) n ty states w))"
    and "glStatesSet (cache (draw pf C (Some vs) n ty states w))"
    and "lastBlendMode (cache (draw pf C (Some vs) n ty states w)) = blendMode states"
    and "m_id (target (draw pf C (Some vs) n ty states w)) = m_id (target w)"
    and "contextRenderTargetMap (draw pf C (Some vs) n ty states w) =
           (contextRenderTargetMap w)(C \<mapsto> m_id (target w))"
    and "useVertexCache (cache (draw pf C (Some vs) n ty states w)) = (n \<le> VertexCacheSize pf)"
    and "vertexCache (cache (draw pf C (Some vs) n ty states w)) =
           (if n \<le> VertexCacheSize pf
            then preTransform pf (transform states) vs n (vertexCache (cache w))
            else vertexCache (cache w))"
    and "trackedCalls (draw pf C (Some vs) n ty states w) =
           trackedCalls w
           @ (if glStatesSet (cache (snd (setActive True C w))) then []
              else blendCommands pf (BlendAlpha pf))
           @ (if \<not> (if glStatesSet (cache (snd (setActive True C w)))
                     then enable (cache (snd (setActive True C w))) else True)
                 \<or> blendMode states \<noteq>
                     (if glStatesSet (cache (snd (setActive True C w)))
                      then lastBlendMode (cache w) else BlendAlpha pf)
              then blendCommands pf (blendMode states) else [])
           @ [glDrawArrays (modes ty) 0 n]"
  by (simp_all add: draw_stages [OF assms] cleanupDraw_effect drawPrimitives_effect
        pointer_proj setupDraw_effect preStep_effect setActive_effect)

lemma draw_logStep:
  assumes "n \<noteq> 0" and "\<not> (SFML_OPENGL_ES pf \<and> ty = Quads)"
  shows "logStep w (draw pf C (Some vs) n ty states w)"
  unfolding draw_stages [OF assms]
  apply (rule logStep_steps(3))
  apply (rule logStep_same [OF _ cleanupDraw_effect(8) cleanupDraw_effect(9) cleanupDraw_effect(10)])
  apply (rule logStep_same [OF _ drawPrimitives_effect(5) drawPrimitives_effect(6) drawPrimitives_effect(7)])
  apply (rule logStep_summary' [OF _ pointer_summary(1)])
  apply (rule setupDraw_logStep)
  apply (rule logStep_same [OF _ preStep_effect(8) preStep_effect(9) preStep_effect(10)])
  apply (rule logStep_setActive)
  apply (rule logStep_refl)
  done


lemma draw_gpu_transform:
  assumes "n \<noteq> 0" and "\<not> (SFML_OPENGL_ES pf \<and> ty = Quads)" and "\<not> n \<le> VertexCacheSize pf"
  shows "gpuTransformCall pf states \<in> set (issued w (draw pf C (Some vs) n ty states w))"
proof -
  define x where "x = resetStep pf C (srgbStep (preStep pf states vs n (snd (setActive True C w))))"
  define y where "y = transformStep pf False states x"
  have a: "extends w x"
    unfolding x_def
    by (intro steps_extends pointer_extends extends_setActive extends_refl)
  have b: "commands y = commands x @ [gpuTransformCall pf states]"
    unfolding y_def by (rule transformStep_gpu)
  have c: "extends y (draw pf C (Some vs) n ty states w)"
    unfolding draw_stages [OF assms(1,2)] setupDraw_stages
    using assms(3)
    by (simp add: y_def x_def)
       (intro extends_steps cleanupDraw_extends extends_simple pointer_extends steps_extends
          extends_refl)
  show ?thesis by (rule issued_member [OF a b c])
qed

lemma draw_VertexBuffer_effect:
  assumes "performed pf (DrawBuffer vb first n states)"
  shows "enable (cache (draw_VertexBuffer pf C vb first n states w))"
    and "glStatesSet (cache (draw_VertexBuffer pf C vb first n states w))"
    and "lastBlendMode (cache (draw_VertexBuffer pf C vb first n states w)) = blendMode states"
    and "m_id (target (draw_VertexBuffer pf C vb first n states w)) = m_id (target w)"
    and "contextRenderTargetMap (draw_VertexBuffer pf C vb first n states w) =
           (contextRenderTargetMap w)(C \<mapsto> m_id (target w))"
    and "trackedCalls (draw_VertexBuffer pf C vb first n states w) =
           trackedCalls w
           @ (if glStatesSet (cache (snd (setActive True C w))) then []
              else blendCommands pf (BlendAlpha pf))
           @ (if \<not> (if glStatesSet (cache (snd (setActive True C w)))
                     then enable (cache (snd (setActive True C w))) else True)
                 \<or> blendMode states \<noteq>
                     (if glStatesSet (cache (snd (setActive True C w)))
                      then lastBlendMode (cache w) else BlendAlpha pf)
              then blendCommands pf (blendMode states) else [])
           @ [glDrawArrays (modes (vb_primitiveType vb)) first (min n (vb_vertexCount vb - first))]"
  by (simp_all add: draw_VertexBuffer_stages [OF assms] cleanupDraw_effect drawPrimitives_effect
        bufferPointer_proj setupDraw_effect setActive_effect tracked_def)

lemma draw_VertexBuffer_logStep:
  assumes "performed pf (DrawBuffer vb first n states)"
  shows "logStep w (draw_VertexBuffer pf C vb first n states w)"
  unfolding draw_VertexBuffer_stages [OF assms]
  apply (rule logStep_steps(3))
  apply (rule logStep_same [OF _ cleanupDraw_effect(8) cleanupDraw_effect(9) cleanupDraw_effect(10)])
  apply (rule logStep_steps(1))
  apply (rule logStep_same [OF _ drawPrimitives_effect(5) drawPrimitives_effect(6) drawPrimitives_effect(7)])
  apply (rule logStep_summary' [OF _ pointer_summary(2)])
  apply (rule logStep_steps(1))
  apply (rule setupDraw_logStep)
  apply (rule logStep_setActive)
  apply (rule logStep_refl)
  done

lemma projections_of_tracked:
  "blendCalls w = filter is_blend_call (trackedCalls w)"
  "drawCalls w = filter is_draw_call (trackedCalls w)"
  "equationCalls w = filter is_equation_call (trackedCalls w)"
proof -
  have "(\<lambda>c. tracked c \<and> is_blend_call c) = is_blend_call"
    "(\<lambda>c. tracked c \<and> is_draw_call c) = is_draw_call"
    by (auto simp: tracked_def)
  moreover have "(\<lambda>c. tracked c \<and> is_equation_call c) = is_equation_call"
  proof
    fix c show "(tracked c \<and> is_equation_call c) = is_equation_call c"
      by (cases c) (simp_all add: tracked_def)
  qed
  ultimately show "blendCalls w = filter is_blend_call (trackedCalls w)"
    "drawCalls w = filter is_draw_call (trackedCalls w)"
    "equationCalls w = filter is_equation_call (trackedCalls w)"
    by (simp_all add: blendCalls_def drawCalls_def equationCalls_def trackedCalls_def)
qed

lemma run_draw_effect:
  assumes "performed pf r"
  shows "enable (cache (run_draw pf C r w))"
    and "glStatesSet (cache (run_draw pf C r w))"
    and "lastBlendMode (cache (run_draw pf C r w)) = blendMode (statesOf r)"
    and "m_id (target (run_draw pf C r w)) = m_id (target w)"
    and "contextRenderTargetMap (run_draw pf C r w) =
           (contextRenderTargetMap w)(C \<mapsto> m_id (target w))"
    and "trackedCalls (run_draw pf C r w) =
           trackedCalls w
           @ (if glStatesSet (cache (snd (setActive True C w))) then []
              else blendCommands pf (BlendAlpha pf))
           @ (if \<not> (if glStatesSet (cache (snd (setActive True C w)))
                     then enable (cache (snd (setActive True C w))) else True)
                 \<or> blendMode (statesOf r) \<noteq>
                     (if glStatesSet (cache (snd (setActive True C w)))
                      then lastBlendMode (cache w) else BlendAlpha pf)
              then blendCommands pf (blendMode (statesOf r)) else [])
           @ [drawCallOf r]"
    and "logStep w (run_draw pf C r w)"
proof -
  show "enable (cache (run_draw pf C r w))"
    using assms by (cases r) (auto simp: draw_effect draw_VertexBuffer_effect)
  show "glStatesSet (cache (run_draw pf C r w))"
    using assms by (cases r) (auto simp: draw_effect draw_VertexBuffer_effect)
  show "lastBlendMode (cache (run_draw pf C r w)) = blendMode (statesOf r)"
    using assms by (cases r) (auto simp: draw_effect draw_VertexBuffer_effect)
  show "m_id (target (run_draw pf C r w)) = m_id (target w)"
    using assms by (cases r) (auto simp: draw_effect draw_VertexBuffer_effect)
  show "contextRenderTargetMap (run_draw pf C r w) =
           (contextRenderTargetMap w)(C \<mapsto> m_id (target w))"
    using assms by (cases r) (auto simp: draw_effect draw_VertexBuffer_effect)
  show "logStep w (run_draw pf C r w)"
    using assms by (cases r) (auto simp: draw_logStep draw_VertexBuffer_logStep)
  show "trackedCalls (run_draw pf C r w) =
           trackedCalls w
           @ (if glStatesSet (cache (snd (setActive True C w))) then []
              else blendCommands pf (BlendAlpha pf))
           @ (if \<not> (if glStatesSet (cache (snd (setActive True C w)))
                     then enable (cache (snd (setActive True C w))) else True)
                 \<or> blendMode (statesOf r) \<noteq>
                     (if glStatesSet (cache (snd (setActive True C w)))
                      then lastBlendMode (cache w) else BlendAlpha pf)
              then blendCommands pf (blendMode (statesOf r)) else [])
           @ [drawCallOf r]"
  proof (cases r)
    case (DrawVertices vertices n ty states)
    with assms obtain vs where v: "vertices = Some vs" by auto
    from assms DrawVertices have g: "n \<noteq> 0" "\<not> (SFML_OPENGL_ES pf \<and> ty = Quads)" by auto
    show ?thesis
      unfolding DrawVertices v run_draw.simps statesOf.simps drawCallOf.simps
      by (rule draw_effect(8) [OF g])
  next
    case (DrawBuffer vb first n states)
    show ?thesis
      unfolding DrawBuffer run_draw.simps statesOf.simps drawCallOf.simps
      by (rule draw_VertexBuffer_effect(6) [OF assms [unfolded DrawBuffer]])
  qed
qed

lemma run_draw_logStep: "logStep w (run_draw pf C r w)"
proof (cases "performed pf r")
  case True
  then show ?thesis by (rule run_draw_effect)
next
  case False
  show ?thesis
  proof (cases r)
    case (DrawVertices vertices n ty states)
    with False have "draw pf C vertices n ty states w = w
        \<or> draw pf C vertices n ty states w = err ErrQuadsUnsupported w"
      by (cases vertices) (auto simp: draw_def)
    then show ?thesis
      unfolding DrawVertices run_draw.simps
      by (auto intro: logStep_refl logStep_steps(6) [OF logStep_refl])
  next
    case (DrawBuffer vb first n states)
    with False have "draw_VertexBuffer pf C vb first n states w = w
        \<or> draw_VertexBuffer pf C vb first n states w = err ErrQuadsUnsupported w
        \<or> draw_VertexBuffer pf C vb first n states w = err ErrVertexBufferUnavailable w"
      by (auto simp: draw_VertexBuffer_def Let_def)
    then show ?thesis
      unfolding DrawBuffer run_draw.simps
      by (auto intro: logStep_refl logStep_steps(6) [OF logStep_refl]
            logStep_steps(7) [OF logStep_refl])
  qed
qed

lemma run_steps_logStep: "logStep w (run_steps pf xs w)"
proof (induction xs arbitrary: w)
  case Nil
  show ?case by (simp add: logStep_refl)
next
  case (Cons x xs)
  have "logStep w (run_step pf x w)"
  proof (cases x)
    case (Draw c r)
    then show ?thesis by (simp add: run_draw_logStep)
  next
    case (SwitchTarget rt)
    then show ?thesis
      by (simp add: logStep_def unavailableWarnings_def fallbackWarnings_def)
  qed
  then show ?case
    using Cons.IH [of "run_step pf x w"] by (auto intro: logStep_trans)
qed

text \<open>
  C3. A call of \<open>draw(vertices, vertexCount, type, states)\<close> with a non-null array of at
  least \<open>vertexCount\<close> vertices, a count that is not zero and a primitive type that is not
  \<open>Quads\<close> on an OpenGL ES build, on a target whose vertex cache has \<open>VertexCacheSize\<close>
  entries. If the count is at most \<open>VertexCacheSize\<close>, the first \<open>vertexCount\<close> entries of
  the cache are the vertices with their positions transformed by \<open>states.transform\<close>, and
  \<open>useVertexCache\<close> is true after the call. If the count is larger, the cache's vertices are
  untouched, the transform is among the calls the draw issued, and \<open>useVertexCache\<close> is false
  after the call.
\<close>

theorem vertex_cache_threshold:
  assumes "vertexCount \<noteq> 0" and "\<not> (SFML_OPENGL_ES pf \<and> type = Quads)"
    and "vertexCount \<le> length vs"
    and "length (vertexCache (cache w)) = VertexCacheSize pf"
  shows "(let w' = draw pf C (Some vs) vertexCount type states w in
            (vertexCount \<le> VertexCacheSize pf \<longrightarrow>
               useVertexCache (cache w')
             \<and> (\<forall>i<vertexCount. vertexCache (cache w') ! i =
                   \<lparr>position = transformPoint pf (transform states) (position (vs ! i)),
                    color = color (vs ! i), texCoords = texCoords (vs ! i)\<rparr>))
          \<and> (\<not> vertexCount \<le> VertexCacheSize pf \<longrightarrow>
               \<not> useVertexCache (cache w')
             \<and> vertexCache (cache w') = vertexCache (cache w)
             \<and> gpuTransformCall pf states \<in> set (issued w w')))"
  using assms draw_gpu_transform [OF assms(1,2), of states w C vs]
  by (simp add: Let_def draw_effect preTransform_nth)

theorem vertex_cache_threshold_witness:
  "(1::nat) \<noteq> 0 \<and> \<not> (SFML_OPENGL_ES desktop_platform \<and> Points = Quads)
   \<and> length (vertexCache (cache world_A_active)) = VertexCacheSize desktop_platform
   \<and> useVertexCache (cache (draw desktop_platform 7 (Some one_vertex) 1 Points plain_states world_A_active))
   \<and> vertexCache (cache (draw desktop_platform 7 (Some one_vertex) 1 Points plain_states world_A_active)) ! 0
       = \<lparr>position = (11, 22), color = (255, 255, 255, 255), texCoords = (0, 0)\<rparr>
   \<and> \<not> useVertexCache (cache (draw desktop_platform 7 (Some five_vertices) 5 Points plain_states world_A_active))
   \<and> glLoadMatrixf [1, 0, 0, 0,  0, 1, 0, 0,  0, 0, 1, 0,  10, 20, 0, 1]
       \<in> set (issued world_A_active
                 (draw desktop_platform 7 (Some five_vertices) 5 Points plain_states world_A_active))"
proof -
  have h: "\<not> (SFML_OPENGL_ES desktop_platform \<and> Points = Quads)"
    "length (vertexCache (cache world_A_active)) = VertexCacheSize desktop_platform"
    "VertexCacheSize desktop_platform = 4"
    by (simp_all add: desktop_platform_def world_A_active_def target_A_def fresh_cache_def cache_def)
  have g: "gpuTransformCall desktop_platform plain_states
             = glLoadMatrixf [1, 0, 0, 0,  0, 1, 0, 0,  0, 0, 1, 0,  10, 20, 0, 1]"
    by (simp add: gpuTransformCall_def desktop_platform_def plain_states_def Transform_Identity_def)
  have p: "transformPoint desktop_platform (transform plain_states) (1, 2) = (11, 22)"
    by (simp add: desktop_platform_def plain_states_def)
  from vertex_cache_threshold [of 1 desktop_platform Points one_vertex world_A_active 7 plain_states]
    vertex_cache_threshold [of 5 desktop_platform Points five_vertices world_A_active 7 plain_states]
    h
  show ?thesis
    by (simp add: Let_def g p one_vertex_def five_vertices_def)
qed

text \<open>
  On an OpenGL ES build a draw of four \<open>Quads\<close> vertices on an active target is rejected: it
  logs, issues nothing and leaves \<open>useVertexCache\<close> false and the vertex cache as it was.
\<close>

theorem vertex_cache_quads_counterexample:
  "(let w' = draw es_platform 7 (Some five_vertices) 4 Quads plain_states world_A_active in
      isActive (m_id (target world_A_active)) 7 world_A_active
    \<and> (4::nat) \<le> VertexCacheSize es_platform
    \<and> \<not> useVertexCache (cache w')
    \<and> vertexCache (cache w') = vertexCache (cache world_A_active)
    \<and> commands w' = []
    \<and> errors w' = [ErrQuadsUnsupported])"
proof -
  have "draw es_platform 7 (Some five_vertices) 4 Quads plain_states world_A_active
          = err ErrQuadsUnsupported world_A_active"
    by (simp add: draw_def es_platform_def desktop_platform_def)
  then show ?thesis
    by (simp add: Let_def isActive_def world_A_active_def target_A_def es_platform_def
          desktop_platform_def fresh_cache_def cache_def err_def)
qed

lemma drawCallOf_kind [simp]:
  "is_draw_call (drawCallOf r)" "\<not> is_blend_call (drawCallOf r)" "\<not> is_equation_call (drawCallOf r)"
  by (cases r; simp)+

lemma blendCalls_applyBlendMode:
  "blendCalls (applyBlendMode pf mode w) = blendCalls w @ blendCommands pf mode"
  by (simp add: projections_of_tracked)

lemma BlendMode_six_fields:
  "(a = b) \<longleftrightarrow>
     colorSrcFactor a = colorSrcFactor b \<and> colorDstFactor a = colorDstFactor b
     \<and> colorEquation a = colorEquation b \<and> alphaSrcFactor a = alphaSrcFactor b
     \<and> alphaDstFactor a = alphaDstFactor b \<and> alphaEquation a = alphaEquation b"
  for a b :: BlendMode
  by (cases a, cases b) auto

text \<open>
  C4. Two draws that are performed, one after the other, on the same target in the same
  context. After the first the cache is enabled and \<open>lastBlendMode\<close> is the first draw's blend
  mode. The second draw's mode equals it exactly when the six sub-fields agree. If it does, the
  second draw issues no blend-state command; if it does not, the blend-state commands of the
  second draw are those of \<open>applyBlendMode\<close> for the new mode (at least one). Either way
  \<open>lastBlendMode\<close> is the second draw's mode afterwards.
\<close>

theorem blend_mode_memoized:
  assumes "performed pf r1" and "performed pf r2"
  shows "(let w1 = run_draw pf C r1 w; w2 = run_draw pf C r2 w1;
              mode = blendMode (statesOf r2); last = lastBlendMode (cache w1)
          in enable (cache w1) \<and> last = blendMode (statesOf r1)
           \<and> ((mode = last) \<longleftrightarrow>
                  colorSrcFactor mode = colorSrcFactor last \<and> colorDstFactor mode = colorDstFactor last
                \<and> colorEquation mode = colorEquation last \<and> alphaSrcFactor mode = alphaSrcFactor last
                \<and> alphaDstFactor mode = alphaDstFactor last \<and> alphaEquation mode = alphaEquation last)
           \<and> (mode = last \<longrightarrow> blendCalls w2 = blendCalls w1)
           \<and> (mode \<noteq> last \<longrightarrow>
                 blendCalls w2 = blendCalls (applyBlendMode pf mode w1)
               \<and> blendCalls w2 \<noteq> blendCalls w1)
           \<and> lastBlendMode (cache w2) = mode)"
proof -
  define w1 where "w1 = run_draw pf C r1 w"
  define w2 where "w2 = run_draw pf C r2 w1"
  have e: "enable (cache w1)" and g: "glStatesSet (cache w1)"
    and l: "lastBlendMode (cache w1) = blendMode (statesOf r1)"
    and a: "isActive (m_id (target w1)) C w1"
    unfolding w1_def using run_draw_effect(1-5) [OF assms(1), of C w]
    by (simp_all add: isActive_def)
  have same: "snd (setActive True C w1) = w1"
    by (rule setActive_True_flags(1) [OF a])
  have t: "trackedCalls w2 = trackedCalls w1
             @ (if blendMode (statesOf r2) \<noteq> lastBlendMode (cache w1)
                then blendCommands pf (blendMode (statesOf r2)) else [])
             @ [drawCallOf r2]"
    unfolding w2_def using run_draw_effect(6) [OF assms(2), of C w1] e g
    by (simp add: same)
  have b: "blendCalls w2 = blendCalls w1
             @ (if blendMode (statesOf r2) \<noteq> lastBlendMode (cache w1)
                then blendCommands pf (blendMode (statesOf r2)) else [])"
    by (simp add: projections_of_tracked t)
  have l2: "lastBlendMode (cache w2) = blendMode (statesOf r2)"
    unfolding w2_def by (rule run_draw_effect(3) [OF assms(2)])
  show ?thesis
    unfolding Let_def w1_def [symmetric] w2_def [symmetric]
    using e l b l2 BlendMode_six_fields [of "blendMode (statesOf r2)" "lastBlendMode (cache w1)"]
    by (simp add: blendCalls_applyBlendMode)
qed

lemma example_draws:
  "performed desktop_platform plain_draw" "performed desktop_platform subtract_draw"
  "blendMode (statesOf plain_draw) = alpha_blend"
  "blendMode (statesOf subtract_draw) = alpha_blend\<lparr>colorEquation := EquationSubtract\<rparr>"
  "drawCallOf subtract_draw = glDrawArrays GL_POINTS 0 1"
  by (simp_all add: plain_draw_def subtract_draw_def desktop_platform_def plain_states_def
        subtract_states_def)

theorem blend_mode_memoized_witness:
  "performed desktop_platform plain_draw \<and> performed desktop_platform subtract_draw
   \<and> (let w1 = run_draw desktop_platform 7 plain_draw world_A_active;
           w2 = run_draw desktop_platform 7 plain_draw w1;
           w3 = run_draw desktop_platform 7 subtract_draw w1
       in enable (cache w1) \<and> lastBlendMode (cache w1) = alpha_blend
        \<and> blendCalls w2 = blendCalls w1
        \<and> blendCalls w3 \<noteq> blendCalls w1
        \<and> lastBlendMode (cache w3) = alpha_blend\<lparr>colorEquation := EquationSubtract\<rparr>)"
proof -
  define w1 where "w1 = run_draw desktop_platform 7 plain_draw world_A_active"
  have d: "alpha_blend\<lparr>colorEquation := EquationSubtract\<rparr> \<noteq> alpha_blend"
    by (simp add: alpha_blend_def)
  note same = blend_mode_memoized [OF example_draws(1) example_draws(1), of 7 world_A_active,
      unfolded Let_def example_draws(3), folded w1_def]
  note other = blend_mode_memoized [OF example_draws(1) example_draws(2), of 7 world_A_active,
      unfolded Let_def example_draws(3,4), folded w1_def]
  from same have e: "enable (cache w1)" and l: "lastBlendMode (cache w1) = alpha_blend"
    by simp_all
  from same l have s: "blendCalls (run_draw desktop_platform 7 plain_draw w1) = blendCalls w1"
    by simp
  from other l d
  have o: "blendCalls (run_draw desktop_platform 7 subtract_draw w1) \<noteq> blendCalls w1"
    "lastBlendMode (cache (run_draw desktop_platform 7 subtract_draw w1))
       = alpha_blend\<lparr>colorEquation := EquationSubtract\<rparr>"
    by (simp_all add: blendCalls_applyBlendMode)
  show ?thesis
    unfolding Let_def w1_def [symmetric]
    using example_draws(1,2) e l s o by simp
qed

lemma equationToGlConstant_warned:
  "warned_applyBlendMode (snd (equationToGlConstant pf e w)) = warned_applyBlendMode w"
  "errors (snd (equationToGlConstant pf e w)) =
     errors w @ (if equationSwitch pf e = None \<and> \<not> warned_equationToGlConstant w
                 then [WarnEquationFallback] else [])"
  by (simp_all add: equationToGlConstant_def split: option.splits)

lemma applyBlendMode_warned:
  "warned_applyBlendMode (applyBlendMode pf mode w) =
     (warned_applyBlendMode w
      \<or> (\<not> GLEXT_blend_minmax pf \<and> \<not> GLEXT_blend_subtract pf
         \<and> (colorEquation mode \<noteq> EquationAdd \<or> alphaEquation mode \<noteq> EquationAdd)))"
  by (simp add: applyBlendMode_def Let_def split_beta equationToGlConstant_warned)

lemma applyBlendMode_unavailable:
  assumes "\<not> GLEXT_blend_minmax pf" and "\<not> GLEXT_blend_subtract pf"
  shows "errors (applyBlendMode pf mode w) =
           errors w @ (if (colorEquation mode \<noteq> EquationAdd \<or> alphaEquation mode \<noteq> EquationAdd)
                          \<and> \<not> warned_applyBlendMode w
                       then [WarnBlendEquationUnavailable] else [])"
    and "blendCommands pf mode =
           [if GLEXT_blend_func_separate pf then
              glBlendFuncSeparate
                (factorToGlConstant (colorSrcFactor mode)) (factorToGlConstant (colorDstFactor mode))
                (factorToGlConstant (alphaSrcFactor mode)) (factorToGlConstant (alphaDstFactor mode))
            else glBlendFunc (factorToGlConstant (colorSrcFactor mode))
                             (factorToGlConstant (colorDstFactor mode))]"
  using assms by (simp_all add: applyBlendMode_def Let_def blendCommands_def)

lemma summary_warned:
  "summary w1 = summary w \<Longrightarrow> warned_applyBlendMode w1 = warned_applyBlendMode w"
  by (simp add: summary_def)

lemma resetGLStates_warned:
  "warned_applyBlendMode (resetGLStates pf C w) =
     (warned_applyBlendMode w
      \<or> (\<not> GLEXT_blend_minmax pf \<and> \<not> GLEXT_blend_subtract pf
         \<and> (colorEquation (BlendAlpha pf) \<noteq> EquationAdd \<or> alphaEquation (BlendAlpha pf) \<noteq> EquationAdd)))"
  by (simp add: resetGLStates_stages resetEnd_effect summary_warned [OF summary_simple(2)]
        applyBlendMode_warned summary_warned [OF resetMiddle_summary] setActive_effect)

lemma setupDraw_warned:
  "warned_applyBlendMode (setupDraw pf C u states w) =
     (warned_applyBlendMode w
      \<or> (\<not> GLEXT_blend_minmax pf \<and> \<not> GLEXT_blend_subtract pf
         \<and> ((\<not> glStatesSet (cache w)
               \<and> (colorEquation (BlendAlpha pf) \<noteq> EquationAdd \<or> alphaEquation (BlendAlpha pf) \<noteq> EquationAdd))
            \<or> ((\<not> (if glStatesSet (cache w) then enable (cache w) else True)
                  \<or> blendMode states \<noteq> (if glStatesSet (cache w) then lastBlendMode (cache w)
                                           else BlendAlpha pf))
               \<and> (colorEquation (blendMode states) \<noteq> EquationAdd
                    \<or> alphaEquation (blendMode states) \<noteq> EquationAdd)))))"
  by (simp add: setupDraw_stages summary_warned [OF steps_summary(4)] blendStep_def
        applyBlendMode_warned view_proj transform_proj summary_warned [OF steps_summary(3)]
        summary_warned [OF steps_summary(2)] summary_warned [OF steps_summary(1)]
        resetStep_effect resetStep_def resetGLStates_warned resetGLStates_effect srgb_proj)
     blast

lemma draw_warned:
  assumes "n \<noteq> 0" and "\<not> (SFML_OPENGL_ES pf \<and> ty = Quads)"
  shows "warned_applyBlendMode (draw pf C (Some vs) n ty states w) =
           warned_applyBlendMode
             (setupDraw pf C (n \<le> VertexCacheSize pf) states
                (preStep pf states vs n (snd (setActive True C w))))"
  by (simp add: draw_stages [OF assms] cleanupDraw_effect drawPrimitives_effect
        summary_warned [OF pointer_summary(1)])

lemma draw_VertexBuffer_warned:
  assumes "performed pf (DrawBuffer vb first n states)"
  shows "warned_applyBlendMode (draw_VertexBuffer pf C vb first n states w) =
           warned_applyBlendMode (setupDraw pf C False states (snd (setActive True C w)))"
  by (simp add: draw_VertexBuffer_stages [OF assms] cleanupDraw_effect drawPrimitives_effect
        summary_warned [OF pointer_summary(2)])

lemma run_draw_warned:
  assumes "performed pf r"
  shows "warned_applyBlendMode (run_draw pf C r w) =
     (warned_applyBlendMode w
      \<or> (\<not> GLEXT_blend_minmax pf \<and> \<not> GLEXT_blend_subtract pf
         \<and> ((\<not> glStatesSet (cache (snd (setActive True C w)))
               \<and> (colorEquation (BlendAlpha pf) \<noteq> EquationAdd \<or> alphaEquation (BlendAlpha pf) \<noteq> EquationAdd))
            \<or> ((\<not> (if glStatesSet (cache (snd (setActive True C w)))
                       then enable (cache (snd (setActive True C w))) else True)
                  \<or> blendMode (statesOf r) \<noteq>
                      (if glStatesSet (cache (snd (setActive True C w)))
                       then lastBlendMode (cache w) else BlendAlpha pf))
               \<and> (colorEquation (blendMode (statesOf r)) \<noteq> EquationAdd
                    \<or> alphaEquation (blendMode (statesOf r)) \<noteq> EquationAdd)))))"
proof (cases r)
  case (DrawVertices vertices n ty states)
  with assms obtain vs where v: "vertices = Some vs" by auto
  from assms DrawVertices have g: "n \<noteq> 0" "\<not> (SFML_OPENGL_ES pf \<and> ty = Quads)" by auto
  show ?thesis
    unfolding DrawVertices v run_draw.simps statesOf.simps draw_warned [OF g] setupDraw_warned
    by (simp only: preStep_effect setActive_effect)
next
  case (DrawBuffer vb first n states)
  show ?thesis
    unfolding DrawBuffer run_draw.simps statesOf.simps
      draw_VertexBuffer_warned [OF assms [unfolded DrawBuffer]] setupDraw_warned
    by (simp only: setActive_effect)
qed

text \<open>
  C7. Neither the blend-subtract nor the blend-minmax extension is available. Then
  \<open>equationToGlConstant\<close> answers the additive equation for every equation, and a draw that
  is performed, whatever equation its blend mode asks for, sends no blend-equation command (the
  backend keeps the additive equation), issues its \<open>glDrawArrays\<close> call, records its mode as
  \<open>lastBlendMode\<close>, and adds at most one warning to the log, none if the warning was given
  before. From a process state without the warning, no sequence of draws, on whatever targets
  and in whatever contexts, logs it more than once.

  When the mode asks for a non-additive equation, \<open>applyBlendMode\<close> sends the blend function
  of the mode and nothing else, logs the warning unless it was given before, and sets the flag.
  The draw applies the mode unless the cache says it is in force (the target is active in the
  context, the cache is enabled, the GL states are set and \<open>lastBlendMode\<close> is the mode):
  the last blend command sent is then the blend function of the mode, the warning has been
  given when the draw returns, and the log has one more warning exactly when it had not been
  given before. If the mode is in force, the draw sends no blend command and logs nothing.
\<close>

theorem blend_equation_fallback:
  assumes "\<not> GLEXT_blend_minmax pf" and "\<not> GLEXT_blend_subtract pf" and "performed pf r"
  shows "(let w' = run_draw pf C r w; mode = blendMode (statesOf r);
              blendFunction =
                (if GLEXT_blend_func_separate pf then
                   glBlendFuncSeparate
                     (factorToGlConstant (colorSrcFactor mode)) (factorToGlConstant (colorDstFactor mode))
                     (factorToGlConstant (alphaSrcFactor mode)) (factorToGlConstant (alphaDstFactor mode))
                 else glBlendFunc (factorToGlConstant (colorSrcFactor mode))
                                  (factorToGlConstant (colorDstFactor mode)));
              inForce = (isActive (m_id (target w)) C w \<and> enable (cache w)
                         \<and> glStatesSet (cache w) \<and> lastBlendMode (cache w) = mode)
          in
            (\<forall>e. fst (equationToGlConstant pf e w) = GL_FUNC_ADD)
          \<and> equationCalls w' = equationCalls w
          \<and> drawCalls w' = drawCalls w @ [drawCallOf r]
          \<and> unavailableWarnings w' \<le> unavailableWarnings w + 1
          \<and> (warned_applyBlendMode w \<longrightarrow> unavailableWarnings w' = unavailableWarnings w)
          \<and> (\<forall>steps w0. \<not> warned_applyBlendMode w0 \<and> unavailableWarnings w0 = 0 \<longrightarrow>
                 unavailableWarnings (run_steps pf steps w0) \<le> 1)
          \<and> lastBlendMode (cache w') = mode
          \<and> (colorEquation mode \<noteq> EquationAdd \<or> alphaEquation mode \<noteq> EquationAdd \<longrightarrow>
                commands (applyBlendMode pf mode w) = commands w @ [blendFunction]
              \<and> errors (applyBlendMode pf mode w) =
                  errors w @ (if warned_applyBlendMode w then [] else [WarnBlendEquationUnavailable])
              \<and> warned_applyBlendMode (applyBlendMode pf mode w)
              \<and> (inForce \<longrightarrow>
                    blendCalls w' = blendCalls w \<and> unavailableWarnings w' = unavailableWarnings w)
              \<and> (\<not> inForce \<longrightarrow>
                    blendCalls w' \<noteq> [] \<and> last (blendCalls w') = blendFunction
                  \<and> warned_applyBlendMode w'
                  \<and> unavailableWarnings w' =
                      unavailableWarnings w + (if warned_applyBlendMode w then 0 else 1))))"
proof -
  define mode where "mode = blendMode (statesOf r)"
  define wa where "wa = snd (setActive True C w)"
  define blendFunction where "blendFunction =
                (if GLEXT_blend_func_separate pf then
                   glBlendFuncSeparate
                     (factorToGlConstant (colorSrcFactor mode)) (factorToGlConstant (colorDstFactor mode))
                     (factorToGlConstant (alphaSrcFactor mode)) (factorToGlConstant (alphaDstFactor mode))
                 else glBlendFunc (factorToGlConstant (colorSrcFactor mode))
                                  (factorToGlConstant (colorDstFactor mode)))"
  define inForce where "inForce \<longleftrightarrow> isActive (m_id (target w)) C w \<and> enable (cache w)
                         \<and> glStatesSet (cache w) \<and> lastBlendMode (cache w) = mode"
  define w' where "w' = run_draw pf C r w"
  have sub: "fst (equationToGlConstant pf e w) = GL_FUNC_ADD" for e
    using assms(1,2) by (cases e) (simp_all add: equationToGlConstant_effect equationConstant_def)
  have eq: "equationCalls w' = equationCalls w"
    using assms(1,2) unfolding w'_def
    by (simp add: projections_of_tracked run_draw_effect(6) [OF assms(3)] blendCommands_no_equation)
  have dr: "drawCalls w' = drawCalls w @ [drawCallOf r]"
    unfolding w'_def by (simp add: projections_of_tracked run_draw_effect(6) [OF assms(3)])
  have ls: "logStep w w'"
    unfolding w'_def by (rule run_draw_logStep)
  then have wn: "unavailableWarnings w' \<le> unavailableWarnings w + 1"
    "warned_applyBlendMode w \<longrightarrow> unavailableWarnings w' = unavailableWarnings w"
    by (auto simp: logStep_def split: if_splits)
  have seq: "unavailableWarnings (run_steps pf steps w0) \<le> 1"
    if "\<not> warned_applyBlendMode w0 \<and> unavailableWarnings w0 = 0" for steps w0
    using run_steps_logStep [of w0 pf steps] that
    by (auto simp: logStep_def split: if_splits)
  have lb: "lastBlendMode (cache w') = mode"
    unfolding w'_def mode_def by (rule run_draw_effect(3) [OF assms(3)])
  have bc: "blendCommands pf m = [if GLEXT_blend_func_separate pf then
              glBlendFuncSeparate
                (factorToGlConstant (colorSrcFactor m)) (factorToGlConstant (colorDstFactor m))
                (factorToGlConstant (alphaSrcFactor m)) (factorToGlConstant (alphaDstFactor m))
            else glBlendFunc (factorToGlConstant (colorSrcFactor m))
                             (factorToGlConstant (colorDstFactor m))]" for m
    by (rule applyBlendMode_unavailable(2) [OF assms(1,2)])
  have bcm: "blendCommands pf mode = [blendFunction]"
    unfolding blendFunction_def by (rule bc)
  have ab: "commands (applyBlendMode pf mode w) = commands w @ [blendFunction]"
    by (simp add: applyBlendMode_effect bcm)
  have bl: "blendCalls w' = blendCalls w
              @ (if glStatesSet (cache wa) then [] else blendCommands pf (BlendAlpha pf))
              @ (if \<not> (if glStatesSet (cache wa) then enable (cache wa) else True)
                    \<or> mode \<noteq> (if glStatesSet (cache wa) then lastBlendMode (cache w) else BlendAlpha pf)
                 then blendCommands pf mode else [])"
    unfolding w'_def wa_def mode_def
    by (simp add: projections_of_tracked run_draw_effect(6) [OF assms(3)])
  have wd: "warned_applyBlendMode w' =
     (warned_applyBlendMode w
      \<or> ((\<not> glStatesSet (cache wa)
               \<and> (colorEquation (BlendAlpha pf) \<noteq> EquationAdd \<or> alphaEquation (BlendAlpha pf) \<noteq> EquationAdd))
            \<or> ((\<not> (if glStatesSet (cache wa) then enable (cache wa) else True)
                  \<or> mode \<noteq> (if glStatesSet (cache wa) then lastBlendMode (cache w) else BlendAlpha pf))
               \<and> (colorEquation mode \<noteq> EquationAdd \<or> alphaEquation mode \<noteq> EquationAdd))))"
    unfolding w'_def wa_def mode_def run_draw_warned [OF assms(3)]
    using assms(1,2) by simp
  have act: "isActive (m_id (target w)) C w \<Longrightarrow> wa = w"
    "\<not> isActive (m_id (target w)) C w \<Longrightarrow> \<not> enable (cache wa)"
    "glStatesSet (cache wa) \<Longrightarrow> glStatesSet (cache w)"
    unfolding wa_def by (rule setActive_True_flags; assumption)+
  have memo: "blendCalls w' = blendCalls w \<and> unavailableWarnings w' = unavailableWarnings w"
    if inForce
  proof -
    from that act(1) have "wa = w" by (simp add: inForce_def)
    with that bl wd have "blendCalls w' = blendCalls w" "warned_applyBlendMode w' = warned_applyBlendMode w"
      by (simp_all add: inForce_def)
    with ls show ?thesis by (auto simp: logStep_def)
  qed
  have fresh: "blendCalls w' \<noteq> [] \<and> last (blendCalls w') = blendFunction
                  \<and> warned_applyBlendMode w'
                  \<and> unavailableWarnings w' =
                      unavailableWarnings w + (if warned_applyBlendMode w then 0 else 1)"
    if n: "\<not> inForce" and na: "colorEquation mode \<noteq> EquationAdd \<or> alphaEquation mode \<noteq> EquationAdd"
  proof (cases "glStatesSet (cache wa)")
    case True
    have "\<not> enable (cache wa) \<or> mode \<noteq> lastBlendMode (cache w)"
    proof (cases "isActive (m_id (target w)) C w")
      case True
      with act(1) have "wa = w" by simp
      with n \<open>glStatesSet (cache wa)\<close> True show ?thesis by (auto simp: inForce_def)
    next
      case False
      with act(2) show ?thesis by simp
    qed
    with True bl wd na have "blendCalls w' = blendCalls w @ [blendFunction]" "warned_applyBlendMode w'"
      by (auto simp: bcm)
    with ls show ?thesis by (auto simp: logStep_def)
  next
    case False
    show ?thesis
    proof (cases "mode = BlendAlpha pf")
      case True
      with False bl wd na bcm
      have "blendCalls w' = blendCalls w @ [blendFunction]" "warned_applyBlendMode w'"
        by auto
      with ls show ?thesis by (auto simp: logStep_def)
    next
      case ne: False
      with False bl wd na
      have "blendCalls w' = blendCalls w @ blendCommands pf (BlendAlpha pf) @ [blendFunction]"
        "warned_applyBlendMode w'"
        by (auto simp: bcm)
      with ls show ?thesis by (auto simp: logStep_def)
    qed
  qed
  have ae: "errors (applyBlendMode pf mode w) =
                  errors w @ (if warned_applyBlendMode w then [] else [WarnBlendEquationUnavailable])"
    "warned_applyBlendMode (applyBlendMode pf mode w)"
    if "colorEquation mode \<noteq> EquationAdd \<or> alphaEquation mode \<noteq> EquationAdd"
    using that assms(1,2)
    by (auto simp: applyBlendMode_unavailable(1) applyBlendMode_warned)
  show ?thesis
    unfolding Let_def w'_def [symmetric] mode_def [symmetric] blendFunction_def [symmetric]
      inForce_def [symmetric]
    using sub eq dr wn seq lb ab ae memo fresh by blast
qed

theorem blend_equation_fallback_witness:
  "\<not> GLEXT_blend_minmax desktop_platform \<and> \<not> GLEXT_blend_subtract desktop_platform
   \<and> performed desktop_platform subtract_draw
   \<and> (let w' = run_draw desktop_platform 7 subtract_draw world_A_active;
           w'' = run_draw desktop_platform 7 subtract_draw w' in
         fst (equationToGlConstant desktop_platform EquationSubtract world_A_active) = GL_FUNC_ADD
       \<and> equationCalls w' = []
       \<and> drawCalls w' = [glDrawArrays GL_POINTS 0 1]
       \<and> last (blendCalls w') = glBlendFuncSeparate GL_SRC_ALPHA GL_ONE_MINUS_SRC_ALPHA GL_ONE GL_ONE_MINUS_SRC_ALPHA
       \<and> lastBlendMode (cache w') = alpha_blend\<lparr>colorEquation := EquationSubtract\<rparr>
       \<and> warned_applyBlendMode w'
       \<and> unavailableWarnings w' = 1
       \<and> blendCalls w'' = blendCalls w'
       \<and> unavailableWarnings w'' = 1
       \<and> drawCalls w'' = [glDrawArrays GL_POINTS 0 1, glDrawArrays GL_POINTS 0 1]
       \<and> unavailableWarnings
            (run_steps desktop_platform [Draw 7 subtract_draw, Draw 7 plain_draw, Draw 7 subtract_draw]
               world_A_active) \<le> 1)"
proof -
  define w' where "w' = run_draw desktop_platform 7 subtract_draw world_A_active"
  have h: "\<not> GLEXT_blend_minmax desktop_platform" "\<not> GLEXT_blend_subtract desktop_platform"
    "GLEXT_blend_func_separate desktop_platform"
    by (simp_all add: desktop_platform_def)
  have z: "equationCalls world_A_active = []" "drawCalls world_A_active = []"
    "unavailableWarnings world_A_active = 0" "\<not> warned_applyBlendMode world_A_active"
    "lastBlendMode (cache world_A_active) = alpha_blend"
    by (simp_all add: equationCalls_def drawCalls_def unavailableWarnings_def world_A_active_def
          cache_def target_A_def fresh_cache_def)
  have m: "alpha_blend \<noteq> alpha_blend\<lparr>colorEquation := EquationSubtract\<rparr>"
    "colorEquation (alpha_blend\<lparr>colorEquation := EquationSubtract\<rparr>) = EquationSubtract"
    "colorSrcFactor alpha_blend = FactorSrcAlpha" "colorDstFactor alpha_blend = FactorOneMinusSrcAlpha"
    "alphaSrcFactor alpha_blend = FactorOne" "alphaDstFactor alpha_blend = FactorOneMinusSrcAlpha"
    by (simp_all add: alpha_blend_def)
  have first: "fst (equationToGlConstant desktop_platform EquationSubtract world_A_active) = GL_FUNC_ADD"
    "equationCalls w' = []" "drawCalls w' = [glDrawArrays GL_POINTS 0 1]"
    "last (blendCalls w') = glBlendFuncSeparate GL_SRC_ALPHA GL_ONE_MINUS_SRC_ALPHA GL_ONE GL_ONE_MINUS_SRC_ALPHA"
    "lastBlendMode (cache w') = alpha_blend\<lparr>colorEquation := EquationSubtract\<rparr>"
    "warned_applyBlendMode w'" "unavailableWarnings w' = 1"
    "unavailableWarnings
            (run_steps desktop_platform [Draw 7 subtract_draw, Draw 7 plain_draw, Draw 7 subtract_draw]
               world_A_active) \<le> 1"
    using blend_equation_fallback [OF h(1,2) example_draws(2), of 7 world_A_active] h z
    unfolding w'_def
    by (simp_all add: Let_def example_draws(4,5) m del: run_steps.simps)
  have inForce: "isActive (m_id (target w')) 7 w'" "enable (cache w')" "glStatesSet (cache w')"
    unfolding w'_def
    by (simp_all add: run_draw_effect [OF example_draws(2)] isActive_def)
  from blend_equation_fallback [OF h(1,2) example_draws(2), of 7 w'] inForce first(3,5,7)
  have second: "blendCalls (run_draw desktop_platform 7 subtract_draw w') = blendCalls w'"
    "unavailableWarnings (run_draw desktop_platform 7 subtract_draw w') = 1"
    "drawCalls (run_draw desktop_platform 7 subtract_draw w')
       = [glDrawArrays GL_POINTS 0 1, glDrawArrays GL_POINTS 0 1]"
    by (simp_all add: Let_def example_draws(4,5) m)
  show ?thesis
    unfolding Let_def w'_def [symmetric]
    using h(1,2) example_draws(2) first second by simp
qed

































end
